theory Spec2Isabelle
  imports Main "HOL-Library.Option_ord" "HOL-Library.Word"
begin

section \<open>Data model\<close>

text \<open>
  The replication core of the reflection journal: \<^verbatim>\<open>github_sync.py\<close> (class GitHubSync),
  \<^verbatim>\<open>sync_manager.py\<close> (class SyncManager) and the deletion-backup queue of
  \<^verbatim>\<open>main.py\<close> (class ReflectionJournalApp).

  Modelling decisions, all visible in the definitions below:
  \<^item> A timestamp is an \<open>int\<close>: seconds since the epoch, UTC. The source stores ISO texts
    and parses them with \<^verbatim>\<open>datetime.fromisoformat\<close>; cells are taken to be well formed.
  \<^item> A Python str is its UTF-8 bytes (\<open>string\<close>); a character is ASCII when its byte
    is below 128.
  \<^item> The TEXT column \<^verbatim>\<open>tags\<close> is NULL, the empty text, or the JSON text of a list of
    tags. Such a text is given by the list it decodes to and by how it spells characters
    beyond ASCII: as \<^verbatim>\<open>\uXXXX\<close> escapes (what \<^verbatim>\<open>json.dumps\<close> writes by default) or
    literally (what it writes with \<^verbatim>\<open>ensure_ascii=False\<close>). Two texts written by the
    program are the same text exactly when both agree.
  \<^item> Column \<^verbatim>\<open>id\<close> is INTEGER PRIMARY KEY, a signed 64-bit integer (\<open>64 word\<close>, read
    with \<open>sint\<close>); an id in a snapshot is a JSON number, an unbounded \<open>int\<close>.
  \<^item> A snapshot file is represented by the dict that \<^verbatim>\<open>json.loads\<close> gives for it.
  \<^item> A backup file \<^verbatim>\<open>reflections_backup_YYYYMM.json\<close> is named by the number YYYYMM
    (six digits, so the order of the names is the order of the numbers).
  \<^item> Every call of the GitHub API may raise. The outcomes of the coming calls are a list
    in the state (\<open>api\<close>), consumed one per call; past its end every call goes through.
  \<^item> The clock does not advance during one operation: \<open>clock\<close> is what
    \<^verbatim>\<open>datetime.now\<close> returns and \<open>month_now\<close> its \<^verbatim>\<open>strftime('%Y%m')\<close>.
  \<^item> Failures of the local file system and of SQLite other than a violated PRIMARY KEY
    are not modelled.
  \<^item> Python names starting with an underscore lose it (\<^verbatim>\<open>_smart_merge\<close> is
    \<open>smart_merge\<close>).
\<close>

type_synonym timestamp = int

datatype tags_cell = NullCell | EmptyText | JsonText bool "string list"

datatype tags_json = JNone | JEmptyStr | JArray "string list"

text \<open>A row of table \<^verbatim>\<open>reflections\<close> (database.py, init_db).\<close>

record row =
  col_id :: "64 word"
  col_content :: string
  col_summary :: "string option"
  col_tags :: tags_cell
  col_category :: "string option"
  col_created_at :: "timestamp option"
  col_updated_at :: "timestamp option"
  col_type :: "string option"
  col_embedding :: "nat list option"

text \<open>A record as export_to_json writes it: the row as a dict, without key embedding.\<close>

record reflection =
  rid :: int
  content :: string
  summary :: "string option"
  tags :: tags_json
  category :: "string option"
  created_at :: "timestamp option"
  updated_at :: "timestamp option"
  rtype :: "string option"

record snapshot =
  export_time :: timestamp
  total_count :: nat
  reflections :: "reflection list"

record backup_file =
  file_month :: nat
  file_data :: snapshot
  commit_time :: timestamp

datatype exn = GithubException | OtherException

datatype db_error = OverflowError | IntegrityError

datatype sync_status = Success | Error

record github_sync =
  token :: string
  repo_name :: string
  repo :: bool

text \<open>
  The state the sync code reads and writes: the local database (tables reflections and
  sync_log), the GitHubSync object, the remote repository's backup files, the SyncManager
  object with its state file, and the environment (API outcomes, clock).
\<close>

record state =
  db_reflections :: "row list"
  db_sync_log :: "(timestamp \<times> sync_status) list"
  github_sync :: github_sync
  backups :: "backup_file list"
  api :: "exn option list"
  is_syncing :: bool
  last_sync_time :: "timestamp option"
  sync_deletions :: bool
  sync_state_file :: "timestamp option"
  notified :: nat
  clock :: timestamp
  month_now :: nat

section \<open>GitHubSync (github_sync.py)\<close>

definition is_configured :: "github_sync \<Rightarrow> bool" where
  "is_configured g = (token g \<noteq> [] \<and> repo_name g \<noteq> [] \<and> repo g)"

subsection \<open>The local database\<close>

text \<open>The integer SQLite returns for column id.\<close>

definition rowid :: "row \<Rightarrow> int" where
  "rowid r = sint (col_id r)"

text \<open>
  The integers sqlite3 accepts as a parameter: a Python int outside the signed 64-bit
  range raises OverflowError when it is bound.
\<close>

definition sqlite_integer :: "int \<Rightarrow> bool" where
  "sqlite_integer i = (- (2 ^ 63) \<le> i \<and> i < 2 ^ 63)"

definition all_ascii :: "string list \<Rightarrow> bool" where
  "all_ascii ts = list_all (\<lambda>c. (of_char c :: nat) < 128) (concat ts)"

text \<open>
  \<^verbatim>\<open>json.dumps(tags, ensure_ascii=...)\<close> as the text of a tags cell: the text has
  \<^verbatim>\<open>\uXXXX\<close> escapes when \<open>ensure_ascii\<close> is set and some character is beyond ASCII.
\<close>

definition json_dumps :: "bool \<Rightarrow> string list \<Rightarrow> tags_cell" where
  "json_dumps ensure_ascii ts = JsonText (ensure_ascii \<and> \<not> all_ascii ts) ts"

text \<open>
  How database.py writes the cell (add_reflection:
  \<^verbatim>\<open>tags_str = json.dumps(tags) if tags else "[]"\<close>, with the default \<open>ensure_ascii\<close>).
\<close>

definition database_tags_str :: "string list \<Rightarrow> tags_cell" where
  "database_tags_str ts = (if ts \<noteq> [] then json_dumps True ts else JsonText False [])"

text \<open>
  \<^verbatim>\<open>SELECT * FROM reflections ORDER BY created_at\<close>: ascending, NULL first, rows with the
  same created_at in rowid order (what SQLite does; SQL leaves it open).
\<close>

definition select_order_by_created_at :: "row list \<Rightarrow> row list" where
  "select_order_by_created_at rows = sort_key col_created_at (sort_key rowid rows)"

text \<open>
  \<^verbatim>\<open>if reflection['tags']: reflection['tags'] = json.loads(reflection['tags'])\<close>:
  decoding forgets how the text spelled its characters.
\<close>

definition export_tags :: "tags_cell \<Rightarrow> tags_json" where
  "export_tags c =
     (case c of NullCell \<Rightarrow> JNone | EmptyText \<Rightarrow> JEmptyStr | JsonText escaped ts \<Rightarrow> JArray ts)"

definition export_row :: "row \<Rightarrow> reflection" where
  "export_row r =
     \<lparr>rid = rowid r, content = col_content r, summary = col_summary r,
      tags = export_tags (col_tags r), category = col_category r,
      created_at = col_created_at r, updated_at = col_updated_at r, rtype = col_type r\<rparr>"

definition export_to_json :: "state \<Rightarrow> snapshot" where
  "export_to_json s =
     \<lparr>export_time = clock s,
      total_count = length (db_reflections s),
      reflections = map export_row (select_order_by_created_at (db_reflections s))\<rparr>"

text \<open>
  \<^verbatim>\<open>tags_str = json.dumps(reflection['tags'], ensure_ascii=False) if reflection['tags'] else "[]"\<close>:
  None, the empty string and the empty list are falsy.
\<close>

definition tags_str :: "tags_json \<Rightarrow> tags_cell" where
  "tags_str t = (case t of JArray (x # xs) \<Rightarrow> json_dumps False (x # xs) | _ \<Rightarrow> JsonText False [])"

text \<open>
  The VALUES of the INSERT statements of \<^verbatim>\<open>_import_from_json\<close> and \<^verbatim>\<open>_merge_from_remote\<close>
  (the same eight columns in both); column embedding is not listed and gets NULL. The
  keys summary, category and type are present in every exported dict, so the defaults of
  \<^verbatim>\<open>reflection.get\<close> are never taken. The id is stored as it is when it is a
  \<open>sqlite_integer\<close>; the statements below bind it only then.
\<close>

definition insert_values :: "reflection \<Rightarrow> row" where
  "insert_values r =
     \<lparr>col_id = word_of_int (rid r), col_content = content r, col_summary = summary r,
      col_tags = tags_str (tags r), col_category = category r,
      col_created_at = created_at r, col_updated_at = updated_at r, col_type = rtype r,
      col_embedding = None\<rparr>"

text \<open>
  \<^verbatim>\<open>cursor.execute('INSERT INTO reflections ...', (reflection['id'], ...))\<close>: binding an id
  outside the 64-bit range raises OverflowError, inserting an id that is taken raises
  sqlite3.IntegrityError.
\<close>

definition insert_row :: "reflection \<Rightarrow> row list \<Rightarrow> db_error + row list" where
  "insert_row r rows =
     (if \<not> sqlite_integer (rid r) then Inl OverflowError
      else if rid r \<in> set (map rowid rows) then Inl IntegrityError
      else Inr (rows @ [insert_values r]))"

text \<open>
  \<^verbatim>\<open>INSERT OR REPLACE INTO reflections\<close>: a row with the same id is deleted first. The
  only caller, \<^verbatim>\<open>_merge_from_remote\<close>, binds ids it has read from the table, which are
  64-bit integers (lemma \<open>restored_ids_are_sqlite_integers\<close>), so this binding does not
  overflow.
\<close>

definition insert_or_replace :: "row \<Rightarrow> row list \<Rightarrow> row list" where
  "insert_or_replace r rows = filter (\<lambda>x. col_id x \<noteq> col_id r) rows @ [r]"

fun insert_all :: "reflection list \<Rightarrow> row list \<Rightarrow> db_error + row list" where
  "insert_all [] rows = Inr rows"
| "insert_all (r # rs) rows =
     (case insert_row r rows of
        Inl e \<Rightarrow> Inl e
      | Inr rows' \<Rightarrow> insert_all rs rows')"

text \<open>
  \<^verbatim>\<open>_import_from_json\<close>: DELETE FROM reflections, one INSERT per record, commit. An
  exception (OverflowError, IntegrityError) is caught: the transaction stays uncommitted,
  so the table is as before, and the result is False.
\<close>

definition import_from_json :: "state \<Rightarrow> snapshot \<Rightarrow> bool \<times> state" where
  "import_from_json s data =
     (case insert_all (reflections data) [] of
        Inl e \<Rightarrow> (False, s)
      | Inr rows \<Rightarrow> (True, s\<lparr>db_reflections := rows\<rparr>))"

definition update_sync_log :: "state \<Rightarrow> sync_status \<Rightarrow> state" where
  "update_sync_log s status = s\<lparr>db_sync_log := db_sync_log s @ [(clock s, status)]\<rparr>"

subsection \<open>The remote repository\<close>

definition api_call :: "state \<Rightarrow> exn option \<times> state" where
  "api_call s = (case api s of [] \<Rightarrow> (None, s) | x # xs \<Rightarrow> (x, s\<lparr>api := xs\<rparr>))"

definition find_file :: "nat \<Rightarrow> backup_file list \<Rightarrow> backup_file option" where
  "find_file m fs = find (\<lambda>f. file_month f = m) fs"

definition put_file :: "backup_file \<Rightarrow> backup_file list \<Rightarrow> backup_file list" where
  "put_file f fs = f # filter (\<lambda>g. file_month g \<noteq> file_month f) fs"

text \<open>\<^verbatim>\<open>max(backup_files, key=lambda x: x.name)\<close>: the first file with the greatest name.\<close>

fun latest_file :: "backup_file list \<Rightarrow> backup_file option" where
  "latest_file [] = None"
| "latest_file (f # fs) =
     (case latest_file fs of
        None \<Rightarrow> Some f
      | Some g \<Rightarrow> if file_month f < file_month g then Some g else Some f)"

text \<open>\<^verbatim>\<open>repo.get_contents(file_path)\<close>: a path that does not exist is a GithubException (404).\<close>

definition get_contents :: "state \<Rightarrow> nat \<Rightarrow> (exn + backup_file) \<times> state" where
  "get_contents s path =
     (let (e, s1) = api_call s in
      case e of
        Some x \<Rightarrow> (Inl x, s1)
      | None \<Rightarrow>
          (case find_file path (backups s1) of
             None \<Rightarrow> (Inl GithubException, s1)
           | Some f \<Rightarrow> (Inr f, s1)))"

text \<open>\<^verbatim>\<open>repo.get_contents("")\<close> filtered to the names reflections_backup_*.json.\<close>

definition get_backup_files :: "state \<Rightarrow> (exn + backup_file list) \<times> state" where
  "get_backup_files s =
     (let (e, s1) = api_call s in
      case e of Some x \<Rightarrow> (Inl x, s1) | None \<Rightarrow> (Inr (backups s1), s1))"

text \<open>\<^verbatim>\<open>latest_file.content\<close>: fetched from the API when it is read.\<close>

definition file_content :: "state \<Rightarrow> backup_file \<Rightarrow> (exn + snapshot) \<times> state" where
  "file_content s f =
     (let (e, s1) = api_call s in
      case e of Some x \<Rightarrow> (Inl x, s1) | None \<Rightarrow> (Inr (file_data f), s1))"

text \<open>\<^verbatim>\<open>repo.get_commits(path)\<close>, \<^verbatim>\<open>commits[0].commit.author.date\<close>.\<close>

definition get_commits :: "state \<Rightarrow> backup_file \<Rightarrow> (exn + timestamp) \<times> state" where
  "get_commits s f =
     (let (e, s1) = api_call s in
      case e of Some x \<Rightarrow> (Inl x, s1) | None \<Rightarrow> (Inr (commit_time f), s1))"

text \<open>
  \<^verbatim>\<open>repo.update_file\<close> with the sha just read; a stale sha is one of the API's exceptions.
  The commit gets the time of the one clock of the model.
\<close>

definition update_file :: "state \<Rightarrow> nat \<Rightarrow> snapshot \<Rightarrow> exn option \<times> state" where
  "update_file s path json_content =
     (let (e, s1) = api_call s in
      case e of
        Some x \<Rightarrow> (Some x, s1)
      | None \<Rightarrow>
          (None, s1\<lparr>backups :=
             put_file \<lparr>file_month = path, file_data = json_content, commit_time = clock s1\<rparr>
               (backups s1)\<rparr>))"

text \<open>\<^verbatim>\<open>repo.create_file\<close>: GitHub refuses to create a path that exists (422).\<close>

definition create_file :: "state \<Rightarrow> nat \<Rightarrow> snapshot \<Rightarrow> exn option \<times> state" where
  "create_file s path json_content =
     (let (e, s1) = api_call s in
      case e of
        Some x \<Rightarrow> (Some x, s1)
      | None \<Rightarrow>
          (case find_file path (backups s1) of
             Some f \<Rightarrow> (Some GithubException, s1)
           | None \<Rightarrow>
               (None, s1\<lparr>backups :=
                  put_file \<lparr>file_month = path, file_data = json_content, commit_time = clock s1\<rparr>
                    (backups s1)\<rparr>)))"

subsection \<open>sync_to_github and sync_from_github\<close>

definition sync_to_github_finish :: "exn option \<times> state \<Rightarrow> bool \<times> state" where
  "sync_to_github_finish r =
     (case r of
        (None, s) \<Rightarrow> (True, update_sync_log s Success)
      | (Some x, s) \<Rightarrow> (False, update_sync_log s Error))"

text \<open>
  \<^verbatim>\<open>sync_to_github\<close>. The inner try block holds both \<^verbatim>\<open>get_contents\<close> and \<^verbatim>\<open>update_file\<close>,
  so a GithubException of either leads to \<^verbatim>\<open>create_file\<close>; any other exception, and
  any exception of \<^verbatim>\<open>create_file\<close>, reaches the outer handler, which logs the error and
  returns False.
\<close>

definition sync_to_github :: "state \<Rightarrow> bool \<times> state" where
  "sync_to_github s =
     (if \<not> is_configured (github_sync s) then (False, s)
      else
        let json_content = export_to_json s;
            file_path = month_now s;
            (r, s1) = get_contents s file_path
        in case r of
             Inr file \<Rightarrow>
               (case update_file s1 file_path json_content of
                  (None, s2) \<Rightarrow> sync_to_github_finish (None, s2)
                | (Some GithubException, s2) \<Rightarrow>
                    sync_to_github_finish (create_file s2 file_path json_content)
                | (Some OtherException, s2) \<Rightarrow> sync_to_github_finish (Some OtherException, s2))
           | Inl GithubException \<Rightarrow> sync_to_github_finish (create_file s1 file_path json_content)
           | Inl OtherException \<Rightarrow> sync_to_github_finish (Some OtherException, s1))"

definition sync_from_github :: "state \<Rightarrow> bool \<times> state" where
  "sync_from_github s =
     (if \<not> is_configured (github_sync s) then (False, s)
      else
        let (r, s1) = get_backup_files s
        in case r of
             Inl x \<Rightarrow> (False, s1)
           | Inr backup_files \<Rightarrow>
               (case latest_file backup_files of
                  None \<Rightarrow> (False, s1)
                | Some latest \<Rightarrow>
                    (let (c, s2) = file_content s1 latest
                     in case c of
                          Inl x \<Rightarrow> (False, s2)
                        | Inr data \<Rightarrow> import_from_json s2 data)))"

section \<open>SyncManager (sync_manager.py)\<close>

text \<open>\<^verbatim>\<open>SELECT MAX(updated_at) FROM reflections\<close>: NULL when no row has a value.\<close>

definition get_local_last_modified :: "state \<Rightarrow> timestamp option" where
  "get_local_last_modified s = fold max (map col_updated_at (db_reflections s)) None"

text \<open>
  \<^verbatim>\<open>_get_remote_last_modified\<close>: any exception is caught and gives None; with no repo
  object the attribute access raises before any call is made.
\<close>

definition get_remote_last_modified :: "state \<Rightarrow> timestamp option \<times> state" where
  "get_remote_last_modified s =
     (if \<not> repo (github_sync s) then (None, s)
      else
        let (r, s1) = get_backup_files s
        in case r of
             Inl x \<Rightarrow> (None, s1)
           | Inr backup_files \<Rightarrow>
               (case latest_file backup_files of
                  None \<Rightarrow> (None, s1)
                | Some latest \<Rightarrow>
                    (let (c, s2) = get_commits s1 latest
                     in case c of Inl x \<Rightarrow> (None, s2) | Inr t \<Rightarrow> (Some t, s2))))"

definition save_last_sync_time :: "state \<Rightarrow> state" where
  "save_last_sync_time s = s\<lparr>sync_state_file := last_sync_time s\<rparr>"

definition notify_sync_complete :: "state \<Rightarrow> state" where
  "notify_sync_complete s = s\<lparr>notified := Suc (notified s)\<rparr>"

text \<open>
  \<^verbatim>\<open>_merge_from_remote\<close>. \<open>local_ids\<close> is the dict comprehension (a later record of the
  same id wins); \<open>locally_added\<close> is the set difference, walked in export order (Python
  leaves the order of a set open). The results of both sync calls are discarded, as in
  the source.
\<close>

definition restore_local :: "(int \<rightharpoonup> reflection) \<Rightarrow> int \<Rightarrow> row list \<Rightarrow> row list" where
  "restore_local local_ids reflection_id rows =
     (case local_ids reflection_id of
        None \<Rightarrow> rows
      | Some reflection \<Rightarrow> insert_or_replace (insert_values reflection) rows)"

definition merge_from_remote :: "state \<Rightarrow> state" where
  "merge_from_remote s =
     (let local_data = export_to_json s;
          local_ids = map_of (rev (map (\<lambda>r. (rid r, r)) (reflections local_data)));
          original_local_ids = remdups (map rid (reflections local_data));
          s1 = snd (sync_from_github s);
          remote_data = export_to_json s1;
          remote_id_set = set (map rid (reflections remote_data));
          locally_added = filter (\<lambda>i. i \<notin> remote_id_set) original_local_ids
      in if \<not> sync_deletions s1
         then snd (sync_to_github
                (s1\<lparr>db_reflections := fold (restore_local local_ids) locally_added (db_reflections s1)\<rparr>))
         else s1)"

definition smart_merge :: "state \<Rightarrow> timestamp \<Rightarrow> timestamp \<Rightarrow> state" where
  "smart_merge s local_time remote_time =
     (if \<bar>local_time - remote_time\<bar> < 60 then s
      else if remote_time > local_time then merge_from_remote s
      else snd (sync_to_github s))"

text \<open>
  \<^verbatim>\<open>sync_on_startup\<close>. None of the modelled calls raises (each catches its own
  exceptions), so the handler of its try block is never entered here.
\<close>

definition sync_on_startup :: "state \<Rightarrow> state" where
  "sync_on_startup s =
     (let local_last_modified = get_local_last_modified s;
          (remote_last_modified, s1) = get_remote_last_modified s;
          s2 = (case remote_last_modified of
                  None \<Rightarrow> snd (sync_to_github s1)
                | Some remote_time \<Rightarrow>
                    (case local_last_modified of
                       None \<Rightarrow> snd (sync_from_github s1)
                     | Some local_time \<Rightarrow> smart_merge s1 local_time remote_time))
      in save_last_sync_time (s2\<lparr>last_sync_time := Some (clock s2)\<rparr>))"

text \<open>One pass of the body of \<^verbatim>\<open>_sync_loop\<close>, after the sleep.\<close>

definition sync_loop_tick :: "state \<Rightarrow> state" where
  "sync_loop_tick s =
     (if is_syncing s then s
      else
        let s0 = s\<lparr>is_syncing := True\<rparr>;
            s1 = (case (get_local_last_modified s0, last_sync_time s0) of
                    (Some local_modified, Some last_sync) \<Rightarrow>
                      if local_modified > last_sync
                      then (let s2 = snd (sync_to_github s0)
                            in notify_sync_complete
                                 (save_last_sync_time (s2\<lparr>last_sync_time := Some (clock s2)\<rparr>)))
                      else s0
                  | _ \<Rightarrow> s0)
        in s1\<lparr>is_syncing := False\<rparr>)"

definition manual_sync :: "state \<Rightarrow> string \<Rightarrow> bool \<times> state" where
  "manual_sync s direction =
     (if is_syncing s then (False, s)
      else
        let s0 = s\<lparr>is_syncing := True\<rparr>;
            (success, s1) =
              (if direction = ''upload'' then sync_to_github s0
               else if direction = ''download'' then sync_from_github s0
               else (True, sync_on_startup s0));
            s2 = (if success
                  then notify_sync_complete
                         (save_last_sync_time (s1\<lparr>last_sync_time := Some (clock s1)\<rparr>))
                  else s1)
        in (success, s2\<lparr>is_syncing := False\<rparr>))"

section \<open>The deletion-backup queue (main.py)\<close>

text \<open>
  The application holds a GitHubSync object of its own, the FIFO \<^verbatim>\<open>queue.Queue\<close> and one
  worker thread running \<^verbatim>\<open>_process_backup_queue\<close>. The worker is either waiting in
  \<^verbatim>\<open>backup_queue.get()\<close> or inside \<^verbatim>\<open>_do_backup_to_github\<close> for the job it took.
  \<open>deleted_records\<close> lists the \<^verbatim>\<open>create_file\<close> calls the worker has made, oldest first,
  each with whether it went through.
\<close>

datatype worker = AtGet | Backing reflection

record app =
  app_github_sync :: github_sync
  backup_queue :: "reflection list"
  backup_thread :: worker
  deleted_records :: "(reflection \<times> bool) list"

definition backup_deleted_record :: "app \<Rightarrow> reflection \<Rightarrow> bool \<times> app" where
  "backup_deleted_record a reflection =
     (if \<not> is_configured (app_github_sync a) then (False, a)
      else (True, a\<lparr>backup_queue := backup_queue a @ [reflection]\<rparr>))"

text \<open>
  The threads interleave at the queue operations. \<open>Delete r\<close>: some thread runs
  \<^verbatim>\<open>backup_deleted_record(r)\<close>. \<open>Get\<close>: the worker's \<^verbatim>\<open>get()\<close> returns (it blocks on an empty
  queue). \<open>Done ok\<close>: the worker's \<^verbatim>\<open>_do_backup_to_github\<close> returns, its write having gone
  through or not, and the worker goes back to \<^verbatim>\<open>get()\<close>.
\<close>

datatype event = Delete reflection | Get | Done bool

fun step :: "app \<Rightarrow> event \<Rightarrow> app" where
  "step a (Delete r) = snd (backup_deleted_record a r)"
| "step a Get =
     (case backup_thread a of
        Backing r \<Rightarrow> a
      | AtGet \<Rightarrow>
          (case backup_queue a of
             [] \<Rightarrow> a
           | r # q \<Rightarrow> a\<lparr>backup_queue := q, backup_thread := Backing r\<rparr>))"
| "step a (Done ok) =
     (case backup_thread a of
        AtGet \<Rightarrow> a
      | Backing r \<Rightarrow> a\<lparr>backup_thread := AtGet, deleted_records := deleted_records a @ [(r, ok)]\<rparr>)"

definition process_backup_queue :: "app \<Rightarrow> event list \<Rightarrow> app" where
  "process_backup_queue a evs = fold (\<lambda>e a. step a e) evs a"

text \<open>The jobs accepted by the calls of \<^verbatim>\<open>backup_deleted_record\<close> in a run, in call order.\<close>

definition enqueued :: "app \<Rightarrow> event list \<Rightarrow> reflection list" where
  "enqueued a evs =
     (if is_configured (app_github_sync a)
      then concat (map (\<lambda>e. case e of Delete r \<Rightarrow> [r] | _ \<Rightarrow> []) evs)
      else [])"

definition in_flight :: "app \<Rightarrow> reflection list" where
  "in_flight a = (case backup_thread a of AtGet \<Rightarrow> [] | Backing r \<Rightarrow> [r])"

section \<open>Example states\<close>

text \<open>
  The scenario of the specification: the local store holds the records 1, 2 and 3, the
  newest backup file on the remote holds 2, 3 and 4. Every local row carries an embedding.
\<close>

definition example_row :: "int \<Rightarrow> timestamp \<Rightarrow> row" where
  "example_row i t =
     \<lparr>col_id = word_of_int i, col_content = ''note'', col_summary = Some ''sum'',
      col_tags = database_tags_str [''tag''], col_category = Some ''work'',
      col_created_at = Some t, col_updated_at = Some t, col_type = Some ''daily'',
      col_embedding = Some [1, 2]\<rparr>"

definition example_remote :: backup_file where
  "example_remote =
     \<lparr>file_month = 202401,
      file_data = \<lparr>export_time = 5000, total_count = 3,
                   reflections = map export_row
                     [example_row 2 200, example_row 3 300, example_row 4 400]\<rparr>,
      commit_time = 5000\<rparr>"

definition example_state :: "bool \<Rightarrow> exn option list \<Rightarrow> state" where
  "example_state deletions outcomes =
     \<lparr>db_reflections = [example_row 1 100, example_row 2 200, example_row 3 300],
      db_sync_log = [],
      github_sync = \<lparr>token = ''t'', repo_name = ''u/r'', repo = True\<rparr>,
      backups = [example_remote],
      api = outcomes,
      is_syncing = False,
      last_sync_time = Some 50,
      sync_deletions = deletions,
      sync_state_file = Some 50,
      notified = 0,
      clock = 6000,
      month_now = 202401\<rparr>"

definition example_app :: app where
  "example_app =
     \<lparr>app_github_sync = \<lparr>token = ''t'', repo_name = ''u/r'', repo = True\<rparr>,
      backup_queue = [],
      backup_thread = AtGet,
      deleted_records = []\<rparr>"

section \<open>Frame lemmas\<close>

text \<open>What the operations leave alone: the clock, and for a read of the remote everything but the pending API outcomes.\<close>

lemma api_frame:
  "t\<lparr>api := a\<rparr> = s \<Longrightarrow> \<exists>b. t = s\<lparr>api := b\<rparr>"
  by (cases t, cases s) auto

lemma clock_sync_to_github: "clock (snd (sync_to_github s)) = clock s"
  by (auto simp: sync_to_github_def sync_to_github_finish_def get_contents_def update_file_def
      create_file_def update_sync_log_def api_call_def Let_def
      split: list.splits option.splits sum.splits exn.splits prod.splits)

lemma clock_sync_from_github: "clock (snd (sync_from_github s)) = clock s"
  by (auto simp: sync_from_github_def get_backup_files_def file_content_def import_from_json_def
      api_call_def Let_def
      split: list.splits option.splits sum.splits exn.splits prod.splits)

lemma clock_merge_from_remote: "clock (merge_from_remote s) = clock s"
  by (simp add: merge_from_remote_def Let_def clock_sync_to_github clock_sync_from_github)

lemma clock_smart_merge: "clock (smart_merge s l r) = clock s"
  by (simp add: smart_merge_def clock_merge_from_remote clock_sync_to_github)

lemma get_remote_last_modified_frame:
  "(snd (get_remote_last_modified s))\<lparr>api := api s\<rparr> = s"
  by (auto simp: get_remote_last_modified_def get_backup_files_def get_commits_def
      api_call_def Let_def
      split: list.splits option.splits sum.splits exn.splits prod.splits)

lemma clock_get_remote_last_modified: "clock (snd (get_remote_last_modified s)) = clock s"
  using api_frame[OF get_remote_last_modified_frame[of s]] by auto

lemma clock_sync_on_startup: "clock (sync_on_startup s) = clock s"
  using clock_get_remote_last_modified[of s]
  by (auto simp: sync_on_startup_def Let_def save_last_sync_time_def clock_sync_to_github
      clock_sync_from_github clock_smart_merge split: prod.splits option.splits)

lemma get_local_last_modified_is_syncing:
  "get_local_last_modified (s\<lparr>is_syncing := b\<rparr>) = get_local_last_modified s"
  by (simp add: get_local_last_modified_def)

section \<open>The no-op window of the smart merge\<close>

text \<open>
  C3. When the local and the remote latest-modification times are less than 60 seconds
  apart, \<^verbatim>\<open>_smart_merge\<close> returns the state it was given, and a startup sync that reads
  these two times leaves table reflections, table sync_log and the remote's backup files
  as they were (it records the sync time, which belongs to neither store).
\<close>

theorem smart_merge_within_tolerance_noop:
  assumes "\<bar>local_time - remote_time\<bar> < 60"
  shows "smart_merge s local_time remote_time = s \<and>
         (get_local_last_modified s = Some local_time \<and>
          fst (get_remote_last_modified s) = Some remote_time \<longrightarrow>
            db_reflections (sync_on_startup s) = db_reflections s \<and>
            db_sync_log (sync_on_startup s) = db_sync_log s \<and>
            backups (sync_on_startup s) = backups s)"
proof -
  have a: "smart_merge s local_time remote_time = s"
    using assms by (simp add: smart_merge_def)
  have b: "db_reflections (sync_on_startup s) = db_reflections s \<and>
            db_sync_log (sync_on_startup s) = db_sync_log s \<and>
            backups (sync_on_startup s) = backups s"
    if l: "get_local_last_modified s = Some local_time"
    and r: "fst (get_remote_last_modified s) = Some remote_time"
  proof -
    obtain s1 where g: "get_remote_last_modified s = (Some remote_time, s1)"
      using r by (cases "get_remote_last_modified s") auto
    obtain a where f: "s1 = s\<lparr>api := a\<rparr>"
      using api_frame[OF get_remote_last_modified_frame[of s]] g by auto
    have "sync_on_startup s = save_last_sync_time (s1\<lparr>last_sync_time := Some (clock s1)\<rparr>)"
      using assms l g by (simp add: sync_on_startup_def smart_merge_def)
    then show ?thesis
      by (simp add: f save_last_sync_time_def)
  qed
  from a b show ?thesis by blast
qed

text \<open>
  The example with the remote file committed at 330 and the newest local row updated at
  300: the stores after the startup sync are the stores before it.
\<close>

theorem smart_merge_within_tolerance_noop_witness:
  "\<bar>300 - 330\<bar> < (60 :: int) \<and>
   get_local_last_modified
     ((example_state True [])\<lparr>backups := [example_remote\<lparr>commit_time := 330\<rparr>]\<rparr>) = Some 300 \<and>
   fst (get_remote_last_modified
     ((example_state True [])\<lparr>backups := [example_remote\<lparr>commit_time := 330\<rparr>]\<rparr>)) = Some 330 \<and>
   db_reflections (sync_on_startup
     ((example_state True [])\<lparr>backups := [example_remote\<lparr>commit_time := 330\<rparr>]\<rparr>)) =
     [example_row 1 100, example_row 2 200, example_row 3 300] \<and>
   backups (sync_on_startup
     ((example_state True [])\<lparr>backups := [example_remote\<lparr>commit_time := 330\<rparr>]\<rparr>)) =
     [example_remote\<lparr>commit_time := 330\<rparr>]"
proof -
  let ?s = "(example_state True [])\<lparr>backups := [example_remote\<lparr>commit_time := 330\<rparr>]\<rparr>"
  have h: "\<bar>300 - 330\<bar> < (60 :: int)" by simp
  have l: "get_local_last_modified ?s = Some 300"
    by (simp add: get_local_last_modified_def example_state_def example_row_def max_def)
  have r: "fst (get_remote_last_modified ?s) = Some 330"
    by (simp add: get_remote_last_modified_def get_backup_files_def get_commits_def
        api_call_def example_state_def)
  have d: "db_reflections ?s = [example_row 1 100, example_row 2 200, example_row 3 300]"
    by (simp add: example_state_def)
  have k: "backups ?s = [example_remote\<lparr>commit_time := 330\<rparr>]"
    by (simp add: example_state_def)
  from smart_merge_within_tolerance_noop[OF h, of ?s] l r d k show ?thesis
    by simp
qed

section \<open>Single-flight manual sync\<close>

text \<open>
  C5. A call of \<^verbatim>\<open>manual_sync\<close> while \<open>is_syncing\<close> is set returns False and leaves the
  whole state as it was: the local store, the remote, \<open>last_sync_time\<close>, the state
  file and the flag itself, so no second session starts.
\<close>

theorem manual_sync_rejected_while_syncing:
  "is_syncing s \<Longrightarrow> manual_sync s direction = (False, s)"
  by (simp add: manual_sync_def)

theorem manual_sync_rejected_while_syncing_witness:
  "is_syncing ((example_state True [])\<lparr>is_syncing := True\<rparr>) \<and>
   manual_sync ((example_state True [])\<lparr>is_syncing := True\<rparr>) ''both'' =
     (False, (example_state True [])\<lparr>is_syncing := True\<rparr>)"
  using manual_sync_rejected_while_syncing[of "(example_state True [])\<lparr>is_syncing := True\<rparr>" "''both''"]
  by simp

section \<open>Manual sync in both directions always reports success\<close>

text \<open>
  C9. A call of \<^verbatim>\<open>manual_sync\<close> whose direction is neither upload nor download (the
  branch of direction both), made while no session is active, returns True and sets
  \<open>last_sync_time\<close> and the state file to the current time, whatever the API calls
  of the session do and whether or not the remote is configured; the flag is cleared.
\<close>

theorem manual_sync_both_always_succeeds:
  "\<not> is_syncing s \<Longrightarrow> direction \<noteq> ''upload'' \<Longrightarrow> direction \<noteq> ''download'' \<Longrightarrow>
   fst (manual_sync s direction) = True \<and>
   last_sync_time (snd (manual_sync s direction)) = Some (clock s) \<and>
   sync_state_file (snd (manual_sync s direction)) = Some (clock s) \<and>
   is_syncing (snd (manual_sync s direction)) = False"
  by (simp add: manual_sync_def Let_def notify_sync_complete_def save_last_sync_time_def
      clock_sync_on_startup)

text \<open>The example with every API call of the session failing.\<close>

theorem manual_sync_both_always_succeeds_witness:
  "\<not> is_syncing (example_state True [Some OtherException, Some OtherException]) \<and>
   fst (manual_sync (example_state True [Some OtherException, Some OtherException]) ''both'') = True \<and>
   last_sync_time
     (snd (manual_sync (example_state True [Some OtherException, Some OtherException]) ''both'')) =
     Some 6000 \<and>
   sync_state_file
     (snd (manual_sync (example_state True [Some OtherException, Some OtherException]) ''both'')) =
     Some 6000"
proof -
  let ?s = "example_state True [Some OtherException, Some OtherException]"
  have a: "\<not> is_syncing ?s" by (simp add: example_state_def)
  have c: "clock ?s = 6000" by (simp add: example_state_def)
  from manual_sync_both_always_succeeds[OF a, of "''both''"] a c show ?thesis
    by simp
qed

section \<open>The periodic tick\<close>

text \<open>
  C10. One pass of the periodic loop changes the state (and so uploads) only when the
  local store has a latest-modification time, a last sync time is recorded and the former
  is strictly greater. With no recorded last sync time the pass changes nothing, whatever
  the local store holds.
\<close>

theorem sync_loop_tick_uploads_only_after_recorded_sync:
  "(sync_loop_tick s \<noteq> s \<longrightarrow>
      (\<exists>local_modified last_sync. get_local_last_modified s = Some local_modified \<and>
         last_sync_time s = Some last_sync \<and> last_sync < local_modified)) \<and>
   (last_sync_time s = None \<longrightarrow> sync_loop_tick s = s)"
  by (auto simp: sync_loop_tick_def Let_def get_local_last_modified_is_syncing
      split: option.splits)

text \<open>The example store has rows modified up to time 300; with no last sync time recorded the tick does nothing.\<close>

theorem sync_loop_tick_uploads_only_after_recorded_sync_witness:
  "last_sync_time ((example_state True [])\<lparr>last_sync_time := None\<rparr>) = None \<and>
   get_local_last_modified ((example_state True [])\<lparr>last_sync_time := None\<rparr>) = Some 300 \<and>
   sync_loop_tick ((example_state True [])\<lparr>last_sync_time := None\<rparr>) =
     (example_state True [])\<lparr>last_sync_time := None\<rparr>"
proof -
  let ?s = "(example_state True [])\<lparr>last_sync_time := None\<rparr>"
  have a: "last_sync_time ?s = None" by simp
  have l: "get_local_last_modified ?s = Some 300"
    by (simp add: get_local_last_modified_def example_state_def example_row_def max_def)
  from sync_loop_tick_uploads_only_after_recorded_sync[of ?s] a l show ?thesis
    by blast
qed

section \<open>Lemmas on the tables, the remote files and the merge\<close>

text \<open>Ids: what the table holds is a 64-bit integer, and such an integer is stored as it is.\<close>

lemma rowid_is_sqlite_integer: "sqlite_integer (rowid r)"
  using sint_ge[of "col_id r"] sint_lt[of "col_id r"]
  by (simp add: sqlite_integer_def rowid_def)

lemma sint_word_of_sqlite_integer:
  "sqlite_integer i \<Longrightarrow> sint (word_of_int i :: 64 word) = i"
  by (simp add: sqlite_integer_def sint_sbintrunc' signed_take_bit_int_eq_self)

lemma rowid_eq_iff: "rowid x = rowid y \<longleftrightarrow> col_id x = col_id y"
proof
  assume "rowid x = rowid y"
  then have "word_of_int (sint (col_id x)) = (word_of_int (sint (col_id y)) :: 64 word)"
    by (simp add: rowid_def)
  then show "col_id x = col_id y" by simp
next
  assume "col_id x = col_id y"
  then show "rowid x = rowid y" by (simp add: rowid_def)
qed

lemma rowid_insert_values: "sqlite_integer (rid r) \<Longrightarrow> rowid (insert_values r) = rid r"
  by (simp add: insert_values_def rowid_def sint_word_of_sqlite_integer)

lemma map_rowid_insert_values:
  "\<forall>x\<in>set rs. sqlite_integer (rid x) \<Longrightarrow> map rowid (map insert_values rs) = map rid rs"
  by (simp add: rowid_insert_values)

lemma rid_export_row: "rid (export_row r) = rowid r"
  by (simp add: export_row_def)

lemma rid_comp_export_row: "rid \<circ> export_row = rowid"
  by (auto simp: rid_export_row)




lemma insert_values_export_row:
  "insert_values (export_row r) =
     r\<lparr>col_tags := tags_str (export_tags (col_tags r)), col_embedding := None\<rparr>"
  by (cases r) (simp add: insert_values_def export_row_def rowid_def)

lemma insert_all_append:
  "insert_all rs rows = Inr rows' \<Longrightarrow> rows' = rows @ map insert_values rs"
proof (induction rs arbitrary: rows)
  case Nil
  then show ?case by simp
next
  case (Cons r rs)
  from Cons.prems have "insert_all rs (rows @ [insert_values r]) = Inr rows'"
    by (simp add: insert_row_def split: if_splits)
  from Cons.IH[OF this] show ?case by simp
qed

lemma insert_all_distinct:
  "distinct (map rid rs) \<Longrightarrow> \<forall>x\<in>set rs. sqlite_integer (rid x) \<Longrightarrow>
   set (map rid rs) \<inter> set (map rowid rows) = {} \<Longrightarrow>
   insert_all rs rows = Inr (rows @ map insert_values rs)"
proof (induction rs arbitrary: rows)
  case Nil
  then show ?case by simp
next
  case (Cons r rs)
  have range: "sqlite_integer (rid r)"
    using Cons.prems(2) by simp
  have "rid r \<notin> set (map rowid rows)"
    using Cons.prems(3) by auto
  moreover have "set (map rid rs) \<inter> set (map rowid (rows @ [insert_values r])) = {}"
    using Cons.prems(1,3) by (auto simp: rowid_insert_values[OF range])
  ultimately show ?case
    using Cons.IH[of "rows @ [insert_values r]"] Cons.prems(1,2) range
    by (simp add: insert_row_def)
qed

text \<open>An id outside the 64-bit range makes the whole import fail.\<close>

lemma insert_all_overflow:
  "x \<in> set rs \<Longrightarrow> \<not> sqlite_integer (rid x) \<Longrightarrow> \<exists>e. insert_all rs rows = Inl e"
proof (induction rs arbitrary: rows)
  case Nil
  then show ?case by simp
next
  case (Cons r rs)
  show ?case
  proof (cases "insert_row r rows")
    case (Inl e)
    then show ?thesis by simp
  next
    case (Inr rows')
    then have "sqlite_integer (rid r)"
      by (simp add: insert_row_def split: if_splits)
    with Cons.prems have "x \<in> set rs" by auto
    from Cons.IH[OF this Cons.prems(2), of rows'] Inr show ?thesis by simp
  qed
qed

lemma import_from_json_overflow:
  "x \<in> set (reflections data) \<Longrightarrow> \<not> sqlite_integer (rid x) \<Longrightarrow>
   import_from_json s data = (False, s)"
  using insert_all_overflow[of x "reflections data" "[]"]
  by (auto simp: import_from_json_def)

lemma set_select: "set (select_order_by_created_at rows) = set rows"
  by (simp add: select_order_by_created_at_def)

lemma distinct_map_sort_key:
  "distinct (map g (sort_key f xs)) = distinct (map g xs)"
  by (simp add: distinct_map)

lemma distinct_ids_select:
  "distinct (map rowid (select_order_by_created_at rows)) = distinct (map rowid rows)"
  by (simp add: select_order_by_created_at_def distinct_map_sort_key)


lemma restored_ids_are_sqlite_integers:
  "x \<in> set (reflections (export_to_json s)) \<Longrightarrow> sqlite_integer (rid x)"
  by (auto simp: export_to_json_def rid_export_row rowid_is_sqlite_integer)


lemma sync_to_github_ok:
  assumes "is_configured (github_sync s)" "api s = []"
  shows "sync_to_github s =
     (True, s\<lparr>backups := put_file \<lparr>file_month = month_now s, file_data = export_to_json s,
                                  commit_time = clock s\<rparr> (backups s),
               db_sync_log := db_sync_log s @ [(clock s, Success)]\<rparr>)"
  using assms
  by (auto simp: sync_to_github_def sync_to_github_finish_def get_contents_def update_file_def
      create_file_def update_sync_log_def api_call_def Let_def
      split: list.splits option.splits sum.splits exn.splits prod.splits)

lemma sync_from_github_ok:
  assumes "is_configured (github_sync s)" "api s = []" "latest_file (backups s) = Some f"
    "distinct (map rid (reflections (file_data f)))"
    "\<forall>x\<in>set (reflections (file_data f)). sqlite_integer (rid x)"
  shows "sync_from_github s = (True, s\<lparr>db_reflections := map insert_values (reflections (file_data f))\<rparr>)"
proof -
  have "insert_all (reflections (file_data f)) [] = Inr ([] @ map insert_values (reflections (file_data f)))"
    using assms(4,5) by (intro insert_all_distinct) simp_all
  then show ?thesis
    using assms(1-3)
    by (simp add: sync_from_github_def get_backup_files_def file_content_def api_call_def
        import_from_json_def)
qed

lemma insert_or_replace_fresh:
  "rowid r \<notin> set (map rowid rows) \<Longrightarrow> insert_or_replace r rows = rows @ [r]"
  by (auto simp: insert_or_replace_def filter_id_conv image_iff rowid_eq_iff[symmetric])

text \<open>The operations keep the ids of table reflections distinct (its PRIMARY KEY).\<close>

lemma insert_row_distinct:
  "distinct (map rowid rows) \<Longrightarrow> insert_row r rows = Inr rows' \<Longrightarrow> distinct (map rowid rows')"
  by (auto simp: insert_row_def rowid_insert_values split: if_splits)

lemma insert_all_keeps_distinct:
  "distinct (map rowid rows) \<Longrightarrow> insert_all rs rows = Inr rows' \<Longrightarrow> distinct (map rowid rows')"
proof (induction rs arbitrary: rows)
  case Nil
  then show ?case by simp
next
  case (Cons r rs)
  then show ?case
    by (auto split: sum.splits dest: insert_row_distinct)
qed

lemma import_from_json_distinct:
  "import_from_json s data = (True, s') \<Longrightarrow> distinct (map rowid (db_reflections s'))"
  by (auto simp: import_from_json_def split: sum.splits dest: insert_all_keeps_distinct[rotated])

lemma insert_or_replace_distinct:
  "distinct (map rowid rows) \<Longrightarrow> distinct (map rowid (insert_or_replace r rows))"
  by (auto simp: insert_or_replace_def distinct_map_filter rowid_eq_iff)

lemma local_ids_lookup:
  "distinct (map rid xs) \<Longrightarrow> x \<in> set xs \<Longrightarrow>
   map_of (rev (map (\<lambda>r. (rid r, r)) xs)) (rid x) = Some x"
  by (rule map_of_is_SomeI) (auto simp: rev_map[symmetric] comp_def distinct_rev)

lemma fold_restore_local:
  "distinct (map rid ys) \<Longrightarrow> \<forall>y\<in>set ys. sqlite_integer (rid y) \<Longrightarrow>
   set (map rid ys) \<inter> set (map rowid rows) = {} \<Longrightarrow>
   (\<And>y. y \<in> set ys \<Longrightarrow> m (rid y) = Some y) \<Longrightarrow>
   fold (restore_local m) (map rid ys) rows = rows @ map insert_values ys"
proof (induction ys arbitrary: rows)
  case Nil
  then show ?case by simp
next
  case (Cons y ys)
  have range: "sqlite_integer (rid y)"
    using Cons.prems(2) by simp
  have fresh: "rowid (insert_values y) \<notin> set (map rowid rows)"
    using Cons.prems(3) by (auto simp: rowid_insert_values[OF range])
  have step: "restore_local m (rid y) rows = rows @ [insert_values y]"
    using Cons.prems(4)[of y] insert_or_replace_fresh[OF fresh]
    by (simp add: restore_local_def)
  have disj: "set (map rid ys) \<inter> set (map rowid (rows @ [insert_values y])) = {}"
    using Cons.prems(1,3) by (auto simp: rowid_insert_values[OF range])
  have rest: "\<forall>y\<in>set ys. sqlite_integer (rid y)"
    using Cons.prems(2) by simp
  show ?case
    using Cons.IH[OF _ rest disj] Cons.prems(1,4) step by simp
qed

lemma ids_export_to_json:
  "rid ` set (reflections (export_to_json s)) = rowid ` set (db_reflections s)"
  by (simp add: export_to_json_def image_image rid_export_row set_select)

lemma image_filter_minus: "f ` {x \<in> S. f x \<notin> A} = f ` S - A"
  by auto

lemma find_file_put_file:
  "find_file (file_month f) (put_file f fs) = Some f"
  by (simp add: find_file_def put_file_def)

lemma latest_file_mem: "latest_file fs = Some g \<Longrightarrow> g \<in> set fs"
  by (induction fs arbitrary: g) (auto split: option.splits if_splits)

lemma latest_file_None: "latest_file fs = None \<longleftrightarrow> fs = []"
  by (cases fs) (auto split: option.splits)

lemma latest_file_put_file:
  assumes "\<forall>g\<in>set fs. file_month g \<le> file_month f"
  shows "latest_file (put_file f fs) = Some f"
proof (cases "latest_file (filter (\<lambda>g. file_month g \<noteq> file_month f) fs)")
  case None
  then show ?thesis by (simp add: put_file_def)
next
  case (Some g)
  from latest_file_mem[OF Some] assms have "file_month g \<le> file_month f" by auto
  with Some show ?thesis by (simp add: put_file_def)
qed

lemma merge_from_remote_ok:
  assumes cfg: "is_configured (github_sync s)" and api: "api s = []"
    and dl: "distinct (map rowid (db_reflections s))"
    and lf: "latest_file (backups s) = Some f"
    and dr: "distinct (map rid (reflections (file_data f)))"
    and rr: "\<forall>x\<in>set (reflections (file_data f)). sqlite_integer (rid x)"
  shows "merge_from_remote s =
     (if sync_deletions s
      then s\<lparr>db_reflections := map insert_values (reflections (file_data f))\<rparr>
      else
        let rows = map insert_values (reflections (file_data f)) @
                   map (\<lambda>r. r\<lparr>col_tags := tags_str (export_tags (col_tags r)), col_embedding := None\<rparr>)
                     (filter (\<lambda>r. rowid r \<notin> set (map rid (reflections (file_data f))))
                        (select_order_by_created_at (db_reflections s)));
            s2 = s\<lparr>db_reflections := rows\<rparr>
        in s2\<lparr>backups := put_file \<lparr>file_month = month_now s, file_data = export_to_json s2,
                                   commit_time = clock s\<rparr> (backups s),
               db_sync_log := db_sync_log s @ [(clock s, Success)]\<rparr>)"
proof -
  let ?rem = "reflections (file_data f)"
  let ?R = "set (map rid ?rem)"
  let ?s1 = "s\<lparr>db_reflections := map insert_values ?rem\<rparr>"
  let ?sel = "select_order_by_created_at (db_reflections s)"
  let ?xs = "map export_row ?sel"
  let ?m = "map_of (rev (map (\<lambda>r. (rid r, r)) ?xs))"
  let ?ys = "filter (\<lambda>x. rid x \<notin> ?R) ?xs"
  have s1: "sync_from_github s = (True, ?s1)"
    by (rule sync_from_github_ok[OF cfg api lf dr rr])
  have xs: "reflections (export_to_json s) = ?xs"
    by (simp add: export_to_json_def)
  have dxs: "distinct (map rid ?xs)"
    using dl by (simp add: rid_comp_export_row distinct_ids_select)
  have mr: "map rowid (map insert_values ?rem) = map rid ?rem"
    by (rule map_rowid_insert_values[OF rr])
  have "rid ` set (reflections (export_to_json ?s1)) = rowid ` set (map insert_values ?rem)"
    using ids_export_to_json[of ?s1] by simp
  also have "\<dots> = set (map rowid (map insert_values ?rem))"
    by (simp only: set_map)
  finally have R: "set (map rid (reflections (export_to_json ?s1))) = ?R"
    by (simp only: mr set_map)
  have added: "filter (\<lambda>i. i \<notin> ?R) (remdups (map rid ?xs)) = map rid ?ys"
    using dxs by (simp only: distinct_remdups_id filter_map comp_def)
  have dys: "distinct (map rid ?ys)"
    using dxs by (rule distinct_map_filter)
  have rys: "\<forall>y\<in>set ?ys. sqlite_integer (rid y)"
    by (auto simp: rid_export_row rowid_is_sqlite_integer)
  have disj: "set (map rid ?ys) \<inter> set (map rowid (map insert_values ?rem)) = {}"
    unfolding mr by auto
  have look: "?m (rid y) = Some y" if "y \<in> set ?ys" for y
    using that by (intro local_ids_lookup[OF dxs]) simp
  have fold: "fold (restore_local ?m) (map rid ?ys) (map insert_values ?rem) =
      map insert_values ?rem @ map insert_values ?ys"
    by (rule fold_restore_local[OF dys rys disj look])
  have ys: "map insert_values ?ys =
      map (\<lambda>r. r\<lparr>col_tags := tags_str (export_tags (col_tags r)), col_embedding := None\<rparr>)
        (filter (\<lambda>r. rowid r \<notin> ?R) ?sel)"
    by (simp add: filter_map comp_def rid_export_row insert_values_export_row)
  show ?thesis
  proof (cases "sync_deletions s")
    case True
    then show ?thesis
      using s1 by (simp add: merge_from_remote_def Let_def)
  next
    case False
    let ?rows = "map insert_values ?rem @ map insert_values ?ys"
    let ?s2 = "s\<lparr>db_reflections := ?rows\<rparr>"
    have "merge_from_remote s = snd (sync_to_github ?s2)"
      using False s1 xs R added fold
      by (simp add: merge_from_remote_def Let_def)
    moreover have "sync_to_github ?s2 =
      (True, ?s2\<lparr>backups := put_file \<lparr>file_month = month_now ?s2, file_data = export_to_json ?s2,
                                  commit_time = clock ?s2\<rparr> (backups ?s2),
               db_sync_log := db_sync_log ?s2 @ [(clock ?s2, Success)]\<rparr>)"
      by (rule sync_to_github_ok) (simp_all add: cfg api)
    ultimately show ?thesis
      using False ys by (simp add: Let_def)
  qed
qed

text \<open>The example states.\<close>

lemma example_configured: "is_configured (github_sync (example_state d os))"
  by (simp add: example_state_def is_configured_def)

lemma example_tags: "database_tags_str [''tag''] = JsonText False [''tag'']"
  by (simp add: database_tags_str_def json_dumps_def all_ascii_def)

lemma example_rowid: "sqlite_integer i \<Longrightarrow> rowid (example_row i t) = i"
  by (simp add: example_row_def rowid_def sint_word_of_sqlite_integer)

lemma example_local_ids: "map rowid (db_reflections (example_state d os)) = [1, 2, 3]"
  by (simp add: example_state_def example_rowid sqlite_integer_def)

lemma example_remote_ids: "map rid (reflections (file_data example_remote)) = [2, 3, 4]"
  by (simp add: example_remote_def rid_export_row example_rowid sqlite_integer_def)

lemma example_remote_range:
  "\<forall>x\<in>set (reflections (file_data example_remote)). sqlite_integer (rid x)"
  by (simp add: example_remote_def rid_export_row rowid_is_sqlite_integer)

lemma example_latest: "latest_file (backups (example_state d os)) = Some example_remote"
  by (simp add: example_state_def)

lemma example_insert_values:
  "insert_values (export_row (example_row i t)) = (example_row i t)\<lparr>col_embedding := None\<rparr>"
  by (simp add: insert_values_export_row)
     (simp add: example_row_def example_tags export_tags_def tags_str_def json_dumps_def)

lemma example_select:
  "select_order_by_created_at (db_reflections (example_state d os)) =
     [example_row 1 100, example_row 2 200, example_row 3 300]"
  by (simp add: select_order_by_created_at_def example_state_def example_rowid sqlite_integer_def)
     (simp add: example_row_def)

lemma example_remote_rows:
  "map insert_values (reflections (file_data example_remote)) =
     [(example_row 2 200)\<lparr>col_embedding := None\<rparr>, (example_row 3 300)\<lparr>col_embedding := None\<rparr>,
      (example_row 4 400)\<lparr>col_embedding := None\<rparr>]"
  by (simp add: example_remote_def example_insert_values)

lemma example_restored_row:
  "(example_row i t)\<lparr>col_tags := tags_str (export_tags (col_tags (example_row i t))),
      col_embedding := None\<rparr> = (example_row i t)\<lparr>col_embedding := None\<rparr>"
  using insert_values_export_row[of "example_row i t"] example_insert_values[of i t] by simp

lemma example_merge_rows:
  assumes "backups s = [g]" and "file_data g = file_data example_remote"
    and "db_reflections s = db_reflections (example_state False [])"
    and "is_configured (github_sync s)" and "api s = []" and "\<not> sync_deletions s"
  shows "db_reflections (merge_from_remote s) =
     [(example_row 2 200)\<lparr>col_embedding := None\<rparr>, (example_row 3 300)\<lparr>col_embedding := None\<rparr>,
      (example_row 4 400)\<lparr>col_embedding := None\<rparr>, (example_row 1 100)\<lparr>col_embedding := None\<rparr>] \<and>
     backups (merge_from_remote s) =
       put_file \<lparr>file_month = month_now s, file_data = export_to_json (merge_from_remote s),
                 commit_time = clock s\<rparr> [g]"
proof -
  have d: "distinct (map rowid (db_reflections s))"
    by (simp add: assms(3) example_local_ids)
  have l: "latest_file (backups s) = Some g"
    by (simp add: assms(1))
  have r: "distinct (map rid (reflections (file_data g)))"
    by (simp add: assms(2) example_remote_ids)
  have q: "\<forall>x\<in>set (reflections (file_data g)). sqlite_integer (rid x)"
    using example_remote_range by (simp add: assms(2))
  have sel: "select_order_by_created_at (db_reflections s) =
     [example_row 1 100, example_row 2 200, example_row 3 300]"
    using example_select[of False "[]"] by (simp add: assms(3))
  have ids: "rowid (example_row 1 100) = 1" "rowid (example_row 2 200) = 2"
    "rowid (example_row 3 300) = 3"
    by (simp_all add: example_rowid sqlite_integer_def)
  have m: "merge_from_remote s =
      (s\<lparr>db_reflections :=
          [(example_row 2 200)\<lparr>col_embedding := None\<rparr>, (example_row 3 300)\<lparr>col_embedding := None\<rparr>,
           (example_row 4 400)\<lparr>col_embedding := None\<rparr>, (example_row 1 100)\<lparr>col_embedding := None\<rparr>]\<rparr>)
       \<lparr>backups := put_file \<lparr>file_month = month_now s,
            file_data = export_to_json (s\<lparr>db_reflections :=
              [(example_row 2 200)\<lparr>col_embedding := None\<rparr>, (example_row 3 300)\<lparr>col_embedding := None\<rparr>,
               (example_row 4 400)\<lparr>col_embedding := None\<rparr>, (example_row 1 100)\<lparr>col_embedding := None\<rparr>]\<rparr>),
            commit_time = clock s\<rparr> [g],
         db_sync_log := db_sync_log s @ [(clock s, Success)]\<rparr>"
    using merge_from_remote_ok[OF assms(4,5) d l r q] assms(6)
    by (simp add: Let_def assms(1,2) example_remote_rows example_remote_ids sel ids
        example_restored_row)
  have x: "export_to_json (merge_from_remote s) = export_to_json (s\<lparr>db_reflections :=
      [(example_row 2 200)\<lparr>col_embedding := None\<rparr>, (example_row 3 300)\<lparr>col_embedding := None\<rparr>,
       (example_row 4 400)\<lparr>col_embedding := None\<rparr>, (example_row 1 100)\<lparr>col_embedding := None\<rparr>]\<rparr>)"
    by (simp add: m export_to_json_def)
  show ?thesis
    unfolding x by (simp add: m)
qed

lemma sync_from_github_overwrites:
  "sync_from_github s = (True, s2) \<Longrightarrow>
   \<exists>latest. latest_file (backups s) = Some latest \<and>
     db_reflections s2 = map insert_values (reflections (file_data latest))"
  by (auto simp: sync_from_github_def get_backup_files_def file_content_def import_from_json_def
      api_call_def Let_def dest!: insert_all_append
      split: if_splits list.splits option.splits sum.splits prod.splits)

lemma export_to_json_api: "export_to_json (s\<lparr>api := a\<rparr>) = export_to_json s"
  by (simp add: export_to_json_def)

lemma sync_to_github_writes:
  "sync_to_github s = (True, s2) \<Longrightarrow>
   find_file (month_now s) (backups s2) =
     Some \<lparr>file_month = month_now s, file_data = export_to_json s, commit_time = clock s\<rparr>"
  by (auto simp: sync_to_github_def sync_to_github_finish_def get_contents_def update_file_def
      create_file_def update_sync_log_def api_call_def Let_def export_to_json_api
      find_file_def put_file_def
      split: if_splits list.splits option.splits sum.splits exn.splits prod.splits)

lemma get_remote_last_modified_ok:
  assumes "repo (github_sync s)" and "api s = []"
  shows "get_remote_last_modified s = (map_option commit_time (latest_file (backups s)), s)"
  using assms
  by (simp add: get_remote_last_modified_def get_backup_files_def get_commits_def api_call_def
      split: option.splits)

section \<open>Merge from remote\<close>

text \<open>
  C2, as the code has it. Take a configured remote whose API calls all go through, a local
  table with distinct ids \<open>L\<close>, and a newest backup file \<open>f\<close> whose records have distinct
  ids \<open>R\<close>, all of them 64-bit integers. With deletion-sync enabled,
  \<^verbatim>\<open>_merge_from_remote\<close> replaces the table by the records of \<open>f\<close> and changes nothing
  else (no upload). With deletion-sync disabled, the table ends with the records of \<open>f\<close>
  followed by the local rows whose id is not in \<open>R\<close>, each with the columns it had except
  that its embedding is NULL and its tags are written anew from their decoded value; the
  ids are \<open>L \<union> R\<close>; the export of this table is written to the backup file of the current
  month, and that file is the newest one when no file of the remote is named for a later
  month.
\<close>

theorem merge_from_remote_restores_or_propagates:
  assumes "is_configured (github_sync s)" and "api s = []"
    and "distinct (map rowid (db_reflections s))"
    and "latest_file (backups s) = Some f"
    and "distinct (map rid (reflections (file_data f)))"
    and "\<forall>x\<in>set (reflections (file_data f)). sqlite_integer (rid x)"
  shows
    "(sync_deletions s \<longrightarrow>
        merge_from_remote s = s\<lparr>db_reflections := map insert_values (reflections (file_data f))\<rparr> \<and>
        set (map rowid (db_reflections (merge_from_remote s))) =
          set (map rid (reflections (file_data f)))) \<and>
     (\<not> sync_deletions s \<longrightarrow>
        db_reflections (merge_from_remote s) =
          map insert_values (reflections (file_data f)) @
          map (\<lambda>r. r\<lparr>col_tags := tags_str (export_tags (col_tags r)), col_embedding := None\<rparr>)
            (filter (\<lambda>r. rowid r \<notin> set (map rid (reflections (file_data f))))
               (select_order_by_created_at (db_reflections s))) \<and>
        set (map rowid (db_reflections (merge_from_remote s))) =
          set (map rowid (db_reflections s)) \<union> set (map rid (reflections (file_data f))) \<and>
        find_file (month_now s) (backups (merge_from_remote s)) =
          Some \<lparr>file_month = month_now s, file_data = export_to_json (merge_from_remote s),
                commit_time = clock s\<rparr> \<and>
        set (map rid (reflections (export_to_json (merge_from_remote s)))) =
          set (map rowid (db_reflections s)) \<union> set (map rid (reflections (file_data f))) \<and>
        ((\<forall>g\<in>set (backups s). file_month g \<le> month_now s) \<longrightarrow>
           latest_file (backups (merge_from_remote s)) =
             Some \<lparr>file_month = month_now s, file_data = export_to_json (merge_from_remote s),
                   commit_time = clock s\<rparr>))"
proof -
  let ?rem = "reflections (file_data f)"
  let ?upd = "\<lambda>r. r\<lparr>col_tags := tags_str (export_tags (col_tags r)), col_embedding := None\<rparr>"
  let ?rows = "map insert_values ?rem @
     map ?upd (filter (\<lambda>r. rowid r \<notin> set (map rid ?rem))
       (select_order_by_created_at (db_reflections s)))"
  let ?s2 = "s\<lparr>db_reflections := ?rows\<rparr>"
  let ?file = "\<lparr>file_month = month_now s, file_data = export_to_json ?s2, commit_time = clock s\<rparr>"
  note m = merge_from_remote_ok[OF assms]
  have mr: "map rowid (map insert_values ?rem) = map rid ?rem"
    by (rule map_rowid_insert_values[OF assms(6)])
  have ru: "rowid (?upd r) = rowid r" for r
    by (simp add: rowid_def)
  have "rowid ` set ?rows =
      set (map rowid (map insert_values ?rem)) \<union>
      rowid ` {r \<in> set (db_reflections s). rowid r \<notin> rid ` set ?rem}"
    by (simp add: image_Un image_image ru set_select)
  then have "rowid ` set ?rows =
      rid ` set ?rem \<union> (rowid ` set (db_reflections s) - rid ` set ?rem)"
    unfolding mr by (simp add: image_filter_minus)
  then have ids: "rowid ` set ?rows = rowid ` set (db_reflections s) \<union> rid ` set ?rem"
    by blast
  have on: ?thesis if d: "sync_deletions s"
  proof -
    have e: "merge_from_remote s = s\<lparr>db_reflections := map insert_values ?rem\<rparr>"
      using m d by simp
    have "set (map rowid (db_reflections (merge_from_remote s))) = set (map rid ?rem)"
      unfolding e using mr by simp
    with e d show ?thesis by blast
  qed
  have off: ?thesis if d: "\<not> sync_deletions s"
  proof -
    have e: "merge_from_remote s =
        ?s2\<lparr>backups := put_file ?file (backups s),
             db_sync_log := db_sync_log s @ [(clock s, Success)]\<rparr>"
      using m d by (simp add: Let_def)
    have x: "export_to_json (merge_from_remote s) = export_to_json ?s2"
      by (simp add: e export_to_json_def)
    have rows: "db_reflections (merge_from_remote s) = ?rows"
      by (simp add: e)
    have b: "backups (merge_from_remote s) = put_file ?file (backups s)"
      by (simp add: e)
    have ff: "find_file (month_now s) (put_file ?file (backups s)) = Some ?file"
      using find_file_put_file[of ?file "backups s"] by simp
    have lat: "latest_file (put_file ?file (backups s)) = Some ?file"
      if "\<forall>g\<in>set (backups s). file_month g \<le> month_now s"
      using latest_file_put_file[of "backups s" ?file] that by simp
    have A: "db_reflections (merge_from_remote s) = ?rows"
      by (rule rows)
    have B: "set (map rowid (db_reflections (merge_from_remote s))) =
        set (map rowid (db_reflections s)) \<union> set (map rid ?rem)"
      unfolding rows using ids by (simp only: set_map)
    have C: "find_file (month_now s) (backups (merge_from_remote s)) =
        Some \<lparr>file_month = month_now s, file_data = export_to_json (merge_from_remote s),
              commit_time = clock s\<rparr>"
      unfolding b x by (rule ff)
    have r2: "db_reflections ?s2 = ?rows"
      by simp
    have D: "set (map rid (reflections (export_to_json (merge_from_remote s)))) =
        set (map rowid (db_reflections s)) \<union> set (map rid ?rem)"
      unfolding x using ids_export_to_json[of ?s2, unfolded r2] ids by (simp only: set_map)
    have E: "latest_file (backups (merge_from_remote s)) =
        Some \<lparr>file_month = month_now s, file_data = export_to_json (merge_from_remote s),
              commit_time = clock s\<rparr>"
      if "\<forall>g\<in>set (backups s). file_month g \<le> month_now s"
      unfolding b x using lat that by blast
    show ?thesis
      using d A B C D E by blast
  qed
  from on off show ?thesis by blast
qed

text \<open>
  The scenario of the specification, local ids 1, 2, 3 and remote ids 2, 3, 4: with
  deletion-sync disabled both sides end with 1, 2, 3, 4; with it enabled the local table
  ends with 2, 3, 4 and the remote is untouched.
\<close>

theorem merge_from_remote_restores_or_propagates_witness:
  "is_configured (github_sync (example_state False [])) \<and>
   distinct (map rowid (db_reflections (example_state False []))) \<and>
   latest_file (backups (example_state False [])) = Some example_remote \<and>
   distinct (map rid (reflections (file_data example_remote))) \<and>
   list_all sqlite_integer (map rid (reflections (file_data example_remote))) \<and>
   set (map rowid (db_reflections (merge_from_remote (example_state False [])))) = {1, 2, 3, 4} \<and>
   set (map rid (reflections (export_to_json (merge_from_remote (example_state False []))))) =
     {1, 2, 3, 4} \<and>
   latest_file (backups (merge_from_remote (example_state False []))) =
     Some \<lparr>file_month = 202401,
           file_data = export_to_json (merge_from_remote (example_state False [])),
           commit_time = 6000\<rparr> \<and>
   set (map rowid (db_reflections (merge_from_remote (example_state True [])))) = {2, 3, 4} \<and>
   backups (merge_from_remote (example_state True [])) = [example_remote]"
proof -
  let ?off = "example_state False []"
  let ?on = "example_state True []"
  have d: "distinct (map rowid (db_reflections (example_state b [])))" for b
    by (simp add: example_local_ids)
  have r: "distinct (map rid (reflections (file_data example_remote)))"
    by (simp add: example_remote_ids)
  have q: "list_all sqlite_integer (map rid (reflections (file_data example_remote)))"
    by (simp add: example_remote_ids sqlite_integer_def)
  have a: "api (example_state b []) = []" for b
    by (simp add: example_state_def)
  have f: "\<not> sync_deletions ?off" "sync_deletions ?on"
    by (simp_all add: example_state_def)
  have c: "clock ?off = 6000" "month_now ?off = 202401"
    by (simp_all add: example_state_def)
  have le: "\<forall>g\<in>set (backups ?off). file_month g \<le> month_now ?off"
    by (simp add: example_state_def example_remote_def)
  have k: "backups (?on\<lparr>db_reflections := map insert_values (reflections (file_data example_remote))\<rparr>)
      = [example_remote]"
    by (simp add: example_state_def)
  have u: "set (map rowid (db_reflections ?off)) \<union> set (map rid (reflections (file_data example_remote)))
      = {1, 2, 3, 4}"
    by (auto simp: example_local_ids example_remote_ids)
  have v: "set (map rid (reflections (file_data example_remote))) = {2, 3, 4}"
    by (simp add: example_remote_ids)
  note off = merge_from_remote_restores_or_propagates[OF example_configured a d example_latest r
      example_remote_range, of False]
  note on = merge_from_remote_restores_or_propagates[OF example_configured a d example_latest r
      example_remote_range, of True]
  from off f(1) have 1: "set (map rowid (db_reflections (merge_from_remote ?off))) =
      set (map rowid (db_reflections ?off)) \<union> set (map rid (reflections (file_data example_remote)))"
    by blast
  from off f(1) have 2: "set (map rid (reflections (export_to_json (merge_from_remote ?off)))) =
      set (map rowid (db_reflections ?off)) \<union> set (map rid (reflections (file_data example_remote)))"
    by blast
  from off f(1) le have 3: "latest_file (backups (merge_from_remote ?off)) =
      Some \<lparr>file_month = month_now ?off, file_data = export_to_json (merge_from_remote ?off),
            commit_time = clock ?off\<rparr>"
    by blast
  from on f(2) have 4: "set (map rowid (db_reflections (merge_from_remote ?on))) =
      set (map rid (reflections (file_data example_remote)))"
    by blast
  from on f(2) have 5: "merge_from_remote ?on =
      ?on\<lparr>db_reflections := map insert_values (reflections (file_data example_remote))\<rparr>"
    by blast
  show ?thesis
    using example_configured[of False "[]"] d[of False] example_latest[of False "[]"] r q
      1[unfolded u] 2[unfolded u] 3[unfolded c] 4[unfolded v] k[folded 5]
    by (intro conjI)
qed

text \<open>
  Where the claim as the specification words it fails, twice. First: record 1 is only
  local and deletion-sync is disabled, yet after the merge the local table does not hold
  the original row; it holds the row without its embedding. Second: the same merge when
  the remote's file is named for the month after the local clock's month (202402 against
  202401). The local table ends with the ids 2, 3, 4, 1 and the merged snapshot is written
  to the file of 202401, but the newest file of the remote, the one the next download
  reads, is still the file of 202402 with the ids 2, 3, 4. Third: the remote file holds
  the ids 2 and \<open>2 ^ 63\<close> and deletion-sync is enabled. Binding \<open>2 ^ 63\<close> raises
  OverflowError, the import is rolled back, and the local table keeps the ids 1, 2, 3.
\<close>

theorem merge_from_remote_not_as_specified:
  "\<not> sync_deletions (example_state False []) \<and>
   example_row 1 100 \<in> set (db_reflections (example_state False [])) \<and>
   rowid (example_row 1 100) \<notin> set (map rid (reflections (file_data example_remote))) \<and>
   example_row 1 100 \<notin> set (db_reflections (merge_from_remote (example_state False []))) \<and>
   (example_row 1 100)\<lparr>col_embedding := None\<rparr> \<in>
     set (db_reflections (merge_from_remote (example_state False []))) \<and>
   map rowid (db_reflections (merge_from_remote
     ((example_state False [])\<lparr>backups := [example_remote\<lparr>file_month := 202402\<rparr>]\<rparr>))) =
     [2, 3, 4, 1] \<and>
   map_option (\<lambda>g. (file_month g, map rid (reflections (file_data g))))
     (latest_file (backups (merge_from_remote
       ((example_state False [])\<lparr>backups := [example_remote\<lparr>file_month := 202402\<rparr>]\<rparr>)))) =
     Some (202402, [2, 3, 4]) \<and>
   sync_deletions (example_state True []) \<and>
   map rowid (db_reflections (merge_from_remote
     ((example_state True [])\<lparr>backups := [example_remote\<lparr>file_data :=
        \<lparr>export_time = 5000, total_count = 2,
         reflections = [export_row (example_row 2 200),
                        (export_row (example_row 2 200))\<lparr>rid := 2 ^ 63\<rparr>]\<rparr>\<rparr>]\<rparr>))) =
     [1, 2, 3]"
proof -
  let ?s = "example_state False []"
  let ?t = "?s\<lparr>backups := [example_remote\<lparr>file_month := 202402\<rparr>]\<rparr>"
  have rows: "db_reflections (merge_from_remote ?s) =
     [(example_row 2 200)\<lparr>col_embedding := None\<rparr>, (example_row 3 300)\<lparr>col_embedding := None\<rparr>,
      (example_row 4 400)\<lparr>col_embedding := None\<rparr>, (example_row 1 100)\<lparr>col_embedding := None\<rparr>]"
    by (rule example_merge_rows[of ?s example_remote, THEN conjunct1])
       (simp_all add: example_state_def is_configured_def)
  have ids: "rowid ((example_row i t)\<lparr>col_embedding := None\<rparr>) = rowid (example_row i t)" for i t
    by (simp add: rowid_def)
  have a: "\<not> sync_deletions ?s" "example_row 1 100 \<in> set (db_reflections ?s)"
    by (simp_all add: example_state_def)
  have b: "rowid (example_row 1 100) \<notin> set (map rid (reflections (file_data example_remote)))"
    by (simp add: example_remote_ids example_rowid sqlite_integer_def)
  have c: "example_row 1 100 \<notin> set (db_reflections (merge_from_remote ?s))"
    unfolding rows by (simp add: example_row_def)
  have d: "(example_row 1 100)\<lparr>col_embedding := None\<rparr> \<in> set (db_reflections (merge_from_remote ?s))"
    unfolding rows by simp
  note later = example_merge_rows[of ?t "example_remote\<lparr>file_month := 202402\<rparr>"]
  have l: "db_reflections (merge_from_remote ?t) =
     [(example_row 2 200)\<lparr>col_embedding := None\<rparr>, (example_row 3 300)\<lparr>col_embedding := None\<rparr>,
      (example_row 4 400)\<lparr>col_embedding := None\<rparr>, (example_row 1 100)\<lparr>col_embedding := None\<rparr>]"
    by (rule later[THEN conjunct1]) (simp_all add: example_state_def is_configured_def)
  have k: "backups (merge_from_remote ?t) =
       put_file \<lparr>file_month = month_now ?t, file_data = export_to_json (merge_from_remote ?t),
                 commit_time = clock ?t\<rparr> [example_remote\<lparr>file_month := 202402\<rparr>]"
    by (rule later[THEN conjunct2]) (simp_all add: example_state_def is_configured_def)
  have e: "map rowid (db_reflections (merge_from_remote ?t)) = [2, 3, 4, 1]"
    unfolding l by (simp add: ids example_rowid sqlite_integer_def)
  have m: "month_now ?t = 202401"
    by (simp add: example_state_def)
  have f: "map_option (\<lambda>g. (file_month g, map rid (reflections (file_data g))))
     (latest_file (backups (merge_from_remote ?t))) = Some (202402, [2, 3, 4])"
    unfolding k m by (simp add: put_file_def example_remote_ids)
  let ?big = "example_remote\<lparr>file_data :=
        \<lparr>export_time = 5000, total_count = 2,
         reflections = [export_row (example_row 2 200),
                        (export_row (example_row 2 200))\<lparr>rid := 2 ^ 63\<rparr>]\<rparr>\<rparr>"
  let ?b = "(example_state True [])\<lparr>backups := [?big]\<rparr>"
  have g: "sync_deletions (example_state True [])"
    by (simp add: example_state_def)
  have "\<not> sqlite_integer (rid ((export_row (example_row 2 200))\<lparr>rid := 2 ^ 63\<rparr>))"
    by (simp add: sqlite_integer_def)
  then have "import_from_json ?b (file_data ?big) = (False, ?b)"
    by (intro import_from_json_overflow[of "(export_row (example_row 2 200))\<lparr>rid := 2 ^ 63\<rparr>"])
       simp_all
  then have "sync_from_github ?b = (False, ?b)"
    by (simp add: sync_from_github_def get_backup_files_def file_content_def api_call_def
        example_state_def is_configured_def)
  then have "merge_from_remote ?b = ?b"
    by (simp add: merge_from_remote_def Let_def) (simp add: example_state_def)
  then have h: "map rowid (db_reflections (merge_from_remote ?b)) = [1, 2, 3]"
    by (simp add: example_local_ids[of True "[]", simplified])
  from a b c d e f g h show ?thesis
    by (intro conjI)
qed

section \<open>Snapshots\<close>




section \<open>The decision table of the startup sync\<close>

text \<open>
  C4. \<^verbatim>\<open>sync_on_startup\<close> reads the remote latest-modification time and then takes one of
  three branches, and in each records the sync time: with no remote time it calls
  \<^verbatim>\<open>sync_to_github\<close>; with a remote time and no local time it calls
  \<^verbatim>\<open>sync_from_github\<close>; with both it calls \<^verbatim>\<open>_smart_merge\<close>. \<^verbatim>\<open>manual_sync\<close> with a
  direction other than upload and download, called while no session is active, runs
  \<^verbatim>\<open>sync_on_startup\<close>. What the branches do when the remote is configured and every API
  call goes through: the time read is the commit time of the newest backup file, absent
  when the remote has no backup file. With no backup file the startup sync leaves the
  export of the local table as the one backup file, named for the current month. With a
  backup file (of distinct 64-bit ids) and no local time the local table ends as exactly
  the records of that file (delete all, then insert all) and the remote is untouched.
  With both times the state is that of \<^verbatim>\<open>_smart_merge\<close> on them.
\<close>

theorem sync_on_startup_decision_table:
  assumes "get_remote_last_modified s = (remote_last_modified, s1)"
  shows
    "(remote_last_modified = None \<longrightarrow>
        sync_on_startup s =
          save_last_sync_time ((snd (sync_to_github s1))\<lparr>last_sync_time := Some (clock s)\<rparr>)) \<and>
     (\<forall>remote_time. remote_last_modified = Some remote_time \<and> get_local_last_modified s = None \<longrightarrow>
        sync_on_startup s =
          save_last_sync_time ((snd (sync_from_github s1))\<lparr>last_sync_time := Some (clock s)\<rparr>)) \<and>
     (\<forall>remote_time local_time.
        remote_last_modified = Some remote_time \<and> get_local_last_modified s = Some local_time \<longrightarrow>
        sync_on_startup s =
          save_last_sync_time
            ((smart_merge s1 local_time remote_time)\<lparr>last_sync_time := Some (clock s)\<rparr>)) \<and>
     (\<forall>s2. sync_from_github s1 = (True, s2) \<longrightarrow>
        (\<exists>latest. latest_file (backups s1) = Some latest \<and>
           db_reflections s2 = map insert_values (reflections (file_data latest)))) \<and>
     (\<forall>s2. sync_to_github s1 = (True, s2) \<longrightarrow>
        find_file (month_now s1) (backups s2) =
          Some \<lparr>file_month = month_now s1, file_data = export_to_json s1, commit_time = clock s1\<rparr>) \<and>
     (\<not> is_syncing s \<and> direction \<noteq> ''upload'' \<and> direction \<noteq> ''download'' \<longrightarrow>
        manual_sync s direction =
          (True, (notify_sync_complete (save_last_sync_time
             ((sync_on_startup (s\<lparr>is_syncing := True\<rparr>))\<lparr>last_sync_time := Some (clock s)\<rparr>)))
             \<lparr>is_syncing := False\<rparr>)) \<and>
     (is_configured (github_sync s) \<and> api s = [] \<longrightarrow>
        remote_last_modified = map_option commit_time (latest_file (backups s)) \<and>
        (remote_last_modified = None) = (backups s = []) \<and>
        (backups s = [] \<longrightarrow>
           sync_on_startup s =
             s\<lparr>backups := [\<lparr>file_month = month_now s, file_data = export_to_json s,
                             commit_time = clock s\<rparr>],
               db_sync_log := db_sync_log s @ [(clock s, Success)],
               last_sync_time := Some (clock s), sync_state_file := Some (clock s)\<rparr>) \<and>
        (\<forall>f. latest_file (backups s) = Some f \<and> get_local_last_modified s = None \<and>
              distinct (map rid (reflections (file_data f))) \<and>
              (\<forall>x\<in>set (reflections (file_data f)). sqlite_integer (rid x)) \<longrightarrow>
           sync_on_startup s =
             s\<lparr>db_reflections := map insert_values (reflections (file_data f)),
               last_sync_time := Some (clock s), sync_state_file := Some (clock s)\<rparr>) \<and>
        (\<forall>f local_time. latest_file (backups s) = Some f \<and>
              get_local_last_modified s = Some local_time \<longrightarrow>
           sync_on_startup s =
             save_last_sync_time
               ((smart_merge s local_time (commit_time f))\<lparr>last_sync_time := Some (clock s)\<rparr>)))"
proof -
  have c1: "clock s1 = clock s"
    using clock_get_remote_last_modified[of s] assms by simp
  have up: "remote_last_modified = None \<Longrightarrow> sync_on_startup s =
      save_last_sync_time ((snd (sync_to_github s1))\<lparr>last_sync_time := Some (clock s)\<rparr>)"
    using assms c1 by (simp add: sync_on_startup_def clock_sync_to_github)
  have down: "remote_last_modified = Some remote_time \<Longrightarrow> get_local_last_modified s = None \<Longrightarrow>
      sync_on_startup s =
      save_last_sync_time ((snd (sync_from_github s1))\<lparr>last_sync_time := Some (clock s)\<rparr>)"
    for remote_time
    using assms c1 by (simp add: sync_on_startup_def clock_sync_from_github)
  have both: "remote_last_modified = Some remote_time \<Longrightarrow>
      get_local_last_modified s = Some local_time \<Longrightarrow>
      sync_on_startup s =
      save_last_sync_time ((smart_merge s1 local_time remote_time)\<lparr>last_sync_time := Some (clock s)\<rparr>)"
    for remote_time local_time
    using assms c1 by (simp add: sync_on_startup_def clock_smart_merge)
  have whole: "\<exists>latest. latest_file (backups s1) = Some latest \<and>
      db_reflections s2 = map insert_values (reflections (file_data latest))"
    if "sync_from_github s1 = (True, s2)" for s2
    using that sync_from_github_overwrites by blast
  have written: "find_file (month_now s1) (backups s2) =
      Some \<lparr>file_month = month_now s1, file_data = export_to_json s1, commit_time = clock s1\<rparr>"
    if "sync_to_github s1 = (True, s2)" for s2
    using that by (rule sync_to_github_writes)
  have manual: "manual_sync s direction =
      (True, (notify_sync_complete (save_last_sync_time
         ((sync_on_startup (s\<lparr>is_syncing := True\<rparr>))\<lparr>last_sync_time := Some (clock s)\<rparr>)))
         \<lparr>is_syncing := False\<rparr>)"
    if "\<not> is_syncing s" "direction \<noteq> ''upload''" "direction \<noteq> ''download''"
    using that by (simp add: manual_sync_def clock_sync_on_startup)
  have ok: "remote_last_modified = map_option commit_time (latest_file (backups s)) \<and>
        (remote_last_modified = None) = (backups s = []) \<and>
        (backups s = [] \<longrightarrow>
           sync_on_startup s =
             s\<lparr>backups := [\<lparr>file_month = month_now s, file_data = export_to_json s,
                             commit_time = clock s\<rparr>],
               db_sync_log := db_sync_log s @ [(clock s, Success)],
               last_sync_time := Some (clock s), sync_state_file := Some (clock s)\<rparr>) \<and>
        (\<forall>f. latest_file (backups s) = Some f \<and> get_local_last_modified s = None \<and>
              distinct (map rid (reflections (file_data f))) \<and>
              (\<forall>x\<in>set (reflections (file_data f)). sqlite_integer (rid x)) \<longrightarrow>
           sync_on_startup s =
             s\<lparr>db_reflections := map insert_values (reflections (file_data f)),
               last_sync_time := Some (clock s), sync_state_file := Some (clock s)\<rparr>) \<and>
        (\<forall>f local_time. latest_file (backups s) = Some f \<and>
              get_local_last_modified s = Some local_time \<longrightarrow>
           sync_on_startup s =
             save_last_sync_time
               ((smart_merge s local_time (commit_time f))\<lparr>last_sync_time := Some (clock s)\<rparr>))"
    if cfg: "is_configured (github_sync s)" and api: "api s = []"
  proof -
    have "repo (github_sync s)"
      using cfg by (simp add: is_configured_def)
    from get_remote_last_modified_ok[OF this api] assms
    have r: "remote_last_modified = map_option commit_time (latest_file (backups s))"
      and s1: "s1 = s"
      by simp_all
    have n: "(remote_last_modified = None) = (backups s = [])"
      unfolding r by (simp add: latest_file_None)
    have u: "sync_on_startup s =
             s\<lparr>backups := [\<lparr>file_month = month_now s, file_data = export_to_json s,
                             commit_time = clock s\<rparr>],
               db_sync_log := db_sync_log s @ [(clock s, Success)],
               last_sync_time := Some (clock s), sync_state_file := Some (clock s)\<rparr>"
      if e: "backups s = []"
    proof -
      have "remote_last_modified = None"
        using n e by simp
      from up[OF this] show ?thesis
        unfolding s1 sync_to_github_ok[OF cfg api]
        by (simp add: e put_file_def save_last_sync_time_def)
    qed
    have d: "sync_on_startup s =
             s\<lparr>db_reflections := map insert_values (reflections (file_data f)),
               last_sync_time := Some (clock s), sync_state_file := Some (clock s)\<rparr>"
      if "latest_file (backups s) = Some f" "get_local_last_modified s = None"
        "distinct (map rid (reflections (file_data f)))"
        "\<forall>x\<in>set (reflections (file_data f)). sqlite_integer (rid x)" for f
    proof -
      have "remote_last_modified = Some (commit_time f)"
        unfolding r by (simp add: that(1))
      from down[OF this that(2)] show ?thesis
        unfolding s1 sync_from_github_ok[OF cfg api that(1,3,4)]
        by (simp add: save_last_sync_time_def)
    qed
    have m: "sync_on_startup s =
             save_last_sync_time
               ((smart_merge s local_time (commit_time f))\<lparr>last_sync_time := Some (clock s)\<rparr>)"
      if "latest_file (backups s) = Some f" "get_local_last_modified s = Some local_time"
      for f local_time
    proof -
      have "remote_last_modified = Some (commit_time f)"
        unfolding r by (simp add: that(1))
      from both[OF this that(2)] show ?thesis
        unfolding s1 .
    qed
    from r n u d m show ?thesis
      by blast
  qed
  from up down both whole written manual ok show ?thesis
    by blast
qed

text \<open>
  The three rows on the example. With no backup file on the remote the startup sync and
  the manual sync in direction both upload the export of the local table. With an empty
  local table the three records of the remote file are downloaded. With the local table
  last modified at 300 and the remote file committed at 5000 the smart merge runs.
\<close>

theorem sync_on_startup_decision_table_witness:
  "get_remote_last_modified ((example_state True [])\<lparr>backups := []\<rparr>) =
     (None, (example_state True [])\<lparr>backups := []\<rparr>) \<and>
   sync_on_startup ((example_state True [])\<lparr>backups := []\<rparr>) =
     (example_state True [])
       \<lparr>backups := [\<lparr>file_month = 202401, file_data = export_to_json (example_state True []),
                     commit_time = 6000\<rparr>],
        db_sync_log := [(6000, Success)],
        last_sync_time := Some 6000, sync_state_file := Some 6000\<rparr> \<and>
   manual_sync ((example_state True [])\<lparr>backups := []\<rparr>) ''both'' =
     (True, (example_state True [])
       \<lparr>backups := [\<lparr>file_month = 202401, file_data = export_to_json (example_state True []),
                     commit_time = 6000\<rparr>],
        db_sync_log := [(6000, Success)],
        last_sync_time := Some 6000, sync_state_file := Some 6000, notified := 1\<rparr>) \<and>
   get_remote_last_modified ((example_state True [])\<lparr>db_reflections := []\<rparr>) =
     (Some 5000, (example_state True [])\<lparr>db_reflections := []\<rparr>) \<and>
   get_local_last_modified ((example_state True [])\<lparr>db_reflections := []\<rparr>) = None \<and>
   sync_on_startup ((example_state True [])\<lparr>db_reflections := []\<rparr>) =
     (example_state True [])
       \<lparr>db_reflections :=
          [(example_row 2 200)\<lparr>col_embedding := None\<rparr>, (example_row 3 300)\<lparr>col_embedding := None\<rparr>,
           (example_row 4 400)\<lparr>col_embedding := None\<rparr>],
        last_sync_time := Some 6000, sync_state_file := Some 6000\<rparr> \<and>
   get_remote_last_modified (example_state True []) = (Some 5000, example_state True []) \<and>
   get_local_last_modified (example_state True []) = Some 300 \<and>
   sync_on_startup (example_state True []) =
     save_last_sync_time
       ((smart_merge (example_state True []) 300 5000)\<lparr>last_sync_time := Some 6000\<rparr>)"
proof -
  let ?e = "example_state True []"
  let ?u = "?e\<lparr>backups := []\<rparr>"
  let ?v = "?e\<lparr>backups := [], is_syncing := True\<rparr>"
  let ?d = "?e\<lparr>db_reflections := []\<rparr>"
  have cfg: "is_configured (github_sync ?u)" "is_configured (github_sync ?v)"
    "is_configured (github_sync ?d)" "is_configured (github_sync ?e)"
    by (simp_all add: example_state_def is_configured_def)
  have api: "api ?u = []" "api ?v = []" "api ?d = []" "api ?e = []"
    by (simp_all add: example_state_def)
  have gu: "get_remote_last_modified ?u = (None, ?u)"
    using get_remote_last_modified_ok[OF _ api(1)] cfg(1) by (simp add: is_configured_def)
  have gv: "get_remote_last_modified ?v = (None, ?v)"
    using get_remote_last_modified_ok[OF _ api(2)] cfg(2) by (simp add: is_configured_def)
  have gd: "get_remote_last_modified ?d = (Some 5000, ?d)"
    using get_remote_last_modified_ok[OF _ api(3)] cfg(3)
    by (simp add: is_configured_def) (simp add: example_state_def example_remote_def)
  have ge: "get_remote_last_modified ?e = (Some 5000, ?e)"
    using get_remote_last_modified_ok[OF _ api(4)] cfg(4)
    by (simp add: is_configured_def) (simp add: example_state_def example_remote_def)
  have ld: "get_local_last_modified ?d = None"
    by (simp add: get_local_last_modified_def)
  have le: "get_local_last_modified ?e = Some 300"
    by (simp add: get_local_last_modified_def example_state_def example_row_def max_def)
  have val: "clock ?e = 6000" "month_now ?e = 202401" "db_sync_log ?e = []" "\<not> is_syncing ?e"
    by (simp_all add: example_state_def)
  have xu: "export_to_json ?u = export_to_json ?e" "export_to_json ?v = export_to_json ?e"
    by (simp_all add: export_to_json_def)
  have lf: "latest_file (backups ?d) = Some example_remote" "latest_file (backups ?e) = Some example_remote"
    by (simp_all add: example_state_def)
  have ct: "commit_time example_remote = 5000"
    by (simp add: example_remote_def)
  have r: "distinct (map rid (reflections (file_data example_remote)))"
    by (simp add: example_remote_ids)
  have bu: "backups ?u = []" "backups ?v = []"
    by simp_all
  from sync_on_startup_decision_table[OF gu, where direction = "''both''"] cfg(1) api(1) bu(1)
  have "sync_on_startup ?u =
      ?u\<lparr>backups := [\<lparr>file_month = month_now ?u, file_data = export_to_json ?u,
                       commit_time = clock ?u\<rparr>],
         db_sync_log := db_sync_log ?u @ [(clock ?u, Success)],
         last_sync_time := Some (clock ?u), sync_state_file := Some (clock ?u)\<rparr>"
    by blast
  then have 1: "sync_on_startup ?u =
     ?e\<lparr>backups := [\<lparr>file_month = 202401, file_data = export_to_json ?e, commit_time = 6000\<rparr>],
        db_sync_log := [(6000, Success)],
        last_sync_time := Some 6000, sync_state_file := Some 6000\<rparr>"
    by (simp add: xu val)
  from sync_on_startup_decision_table[OF gv, where direction = "''both''"] cfg(2) api(2) bu(2)
  have "sync_on_startup ?v =
      ?v\<lparr>backups := [\<lparr>file_month = month_now ?v, file_data = export_to_json ?v,
                       commit_time = clock ?v\<rparr>],
         db_sync_log := db_sync_log ?v @ [(clock ?v, Success)],
         last_sync_time := Some (clock ?v), sync_state_file := Some (clock ?v)\<rparr>"
    by blast
  then have sv: "sync_on_startup (?u\<lparr>is_syncing := True\<rparr>) =
     ?e\<lparr>backups := [\<lparr>file_month = 202401, file_data = export_to_json ?e, commit_time = 6000\<rparr>],
        db_sync_log := [(6000, Success)],
        last_sync_time := Some 6000, sync_state_file := Some 6000, is_syncing := True\<rparr>"
    by (simp add: xu val)
  have ns: "\<not> is_syncing ?u" "''both'' \<noteq> ''upload''" "''both'' \<noteq> ''download''"
    by (simp_all add: val)
  from sync_on_startup_decision_table[OF gu, where direction = "''both''"] ns
  have "manual_sync ?u ''both'' =
      (True, (notify_sync_complete (save_last_sync_time
         ((sync_on_startup (?u\<lparr>is_syncing := True\<rparr>))\<lparr>last_sync_time := Some (clock ?u)\<rparr>)))
         \<lparr>is_syncing := False\<rparr>)"
    by blast
  then have 2: "manual_sync ?u ''both'' =
     (True, ?e\<lparr>backups := [\<lparr>file_month = 202401, file_data = export_to_json ?e, commit_time = 6000\<rparr>],
        db_sync_log := [(6000, Success)],
        last_sync_time := Some 6000, sync_state_file := Some 6000, notified := 1\<rparr>)"
    unfolding sv
    by (simp add: save_last_sync_time_def notify_sync_complete_def val) (simp add: example_state_def)
  from sync_on_startup_decision_table[OF gd, where direction = "''both''"]
    cfg(3) api(3) lf(1) ld r example_remote_range
  have "sync_on_startup ?d =
      ?d\<lparr>db_reflections := map insert_values (reflections (file_data example_remote)),
         last_sync_time := Some (clock ?d), sync_state_file := Some (clock ?d)\<rparr>"
    by blast
  then have 3: "sync_on_startup ?d =
     ?e\<lparr>db_reflections :=
          [(example_row 2 200)\<lparr>col_embedding := None\<rparr>, (example_row 3 300)\<lparr>col_embedding := None\<rparr>,
           (example_row 4 400)\<lparr>col_embedding := None\<rparr>],
        last_sync_time := Some 6000, sync_state_file := Some 6000\<rparr>"
    by (simp add: example_remote_rows val)
  from sync_on_startup_decision_table[OF ge, where direction = "''both''"]
    cfg(4) api(4) lf(2) le
  have "sync_on_startup ?e =
      save_last_sync_time
        ((smart_merge ?e 300 (commit_time example_remote))\<lparr>last_sync_time := Some (clock ?e)\<rparr>)"
    by blast
  then have 4: "sync_on_startup ?e =
     save_last_sync_time ((smart_merge ?e 300 5000)\<lparr>last_sync_time := Some 6000\<rparr>)"
    by (simp add: ct val)
  from gu 1 2 gd ld 3 ge le 4 show ?thesis
    by (intro conjI)
qed

section \<open>A failed upload and the recorded sync time\<close>

text \<open>
  A manual sync in direction upload or download that reports failure leaves
  \<open>last_sync_time\<close> and the state file as they were. \<^verbatim>\<open>sync_on_startup\<close> sets both to the
  current time on every path.
\<close>

lemma last_sync_time_sync_to_github:
  "last_sync_time (snd (sync_to_github s)) = last_sync_time s \<and>
   sync_state_file (snd (sync_to_github s)) = sync_state_file s"
  by (auto simp: sync_to_github_def sync_to_github_finish_def get_contents_def update_file_def
      create_file_def update_sync_log_def api_call_def Let_def
      split: list.splits option.splits sum.splits exn.splits prod.splits)

lemma last_sync_time_sync_from_github:
  "last_sync_time (snd (sync_from_github s)) = last_sync_time s \<and>
   sync_state_file (snd (sync_from_github s)) = sync_state_file s"
  by (auto simp: sync_from_github_def get_backup_files_def file_content_def import_from_json_def
      api_call_def Let_def
      split: list.splits option.splits sum.splits exn.splits prod.splits)

lemma manual_sync_one_way_failure_keeps_last_sync_time:
  assumes "direction = ''upload'' \<or> direction = ''download''"
    and "\<not> fst (manual_sync s direction)"
  shows "last_sync_time (snd (manual_sync s direction)) = last_sync_time s \<and>
         sync_state_file (snd (manual_sync s direction)) = sync_state_file s"
proof (cases "is_syncing s")
  case True
  then show ?thesis by (simp add: manual_sync_def)
next
  case False
  let ?s0 = "s\<lparr>is_syncing := True\<rparr>"
  show ?thesis
  proof (cases "direction = ''upload''")
    case True
    obtain b s1 where e: "sync_to_github ?s0 = (b, s1)"
      by (cases "sync_to_github ?s0") auto
    with assms(2) True False have "\<not> b"
      by (simp add: manual_sync_def)
    with e True False show ?thesis
      using last_sync_time_sync_to_github[of ?s0]
      by (simp add: manual_sync_def)
  next
    case nu: False
    with assms(1) have d: "direction = ''download''" by simp
    obtain b s1 where e: "sync_from_github ?s0 = (b, s1)"
      by (cases "sync_from_github ?s0") auto
    with assms(2) d False have "\<not> b"
      by (simp add: manual_sync_def)
    with e d False show ?thesis
      using last_sync_time_sync_from_github[of ?s0]
      by (simp add: manual_sync_def)
  qed
qed

lemma sync_on_startup_always_records:
  "last_sync_time (sync_on_startup s) = Some (clock s) \<and>
   sync_state_file (sync_on_startup s) = Some (clock s)"
  using clock_get_remote_last_modified[of s]
  by (auto simp: sync_on_startup_def Let_def save_last_sync_time_def clock_sync_to_github
      clock_sync_from_github clock_smart_merge split: prod.splits option.splits)

text \<open>
  C1, evaluated on the code. The remote is empty, the listing and the lookup of the
  month's file go through and the \<^verbatim>\<open>create_file\<close> call raises: \<^verbatim>\<open>sync_to_github\<close> returns
  False and logs an error, nothing is written to the remote, and still
  \<^verbatim>\<open>sync_on_startup\<close> moves \<open>last_sync_time\<close> and the state file from 50 to the current
  time 6000, and \<^verbatim>\<open>manual_sync\<close> in direction both returns True. With direction
  upload the same failure returns False and leaves \<open>last_sync_time\<close> at 50. After the
  failed startup sync the periodic tick does nothing, the last local change (300) being
  older than the recorded sync time.
\<close>

theorem failed_upload_still_records_sync_time:
  "sync_on_startup ((example_state True [None, None, Some GithubException])\<lparr>backups := []\<rparr>) =
     (example_state True [])\<lparr>backups := [], db_sync_log := [(6000, Error)],
        last_sync_time := Some 6000, sync_state_file := Some 6000\<rparr> \<and>
   last_sync_time ((example_state True [None, None, Some GithubException])\<lparr>backups := []\<rparr>) =
     Some 50 \<and>
   manual_sync ((example_state True [None, None, Some GithubException])\<lparr>backups := []\<rparr>) ''both'' =
     (True, (example_state True [])\<lparr>backups := [], db_sync_log := [(6000, Error)],
        last_sync_time := Some 6000, sync_state_file := Some 6000, notified := 1\<rparr>) \<and>
   manual_sync ((example_state True [None, Some GithubException])\<lparr>backups := []\<rparr>) ''upload'' =
     (False, (example_state True [])\<lparr>backups := [], db_sync_log := [(6000, Error)]\<rparr>) \<and>
   sync_loop_tick ((example_state True [])\<lparr>backups := [], db_sync_log := [(6000, Error)],
        last_sync_time := Some 6000, sync_state_file := Some 6000\<rparr>) =
     (example_state True [])\<lparr>backups := [], db_sync_log := [(6000, Error)],
        last_sync_time := Some 6000, sync_state_file := Some 6000\<rparr>"
proof -
  have l: "get_local_last_modified ((example_state True os)\<lparr>backups := []\<rparr>) = Some 300" for os
    by (simp add: get_local_last_modified_def example_state_def example_row_def max_def)
  have l': "get_local_last_modified ((example_state True os)\<lparr>backups := [], is_syncing := True\<rparr>) = Some 300"
    for os
    by (simp add: get_local_last_modified_def example_state_def example_row_def max_def)
  have a: "sync_on_startup ((example_state True [None, None, Some GithubException])\<lparr>backups := []\<rparr>) =
     (example_state True [])\<lparr>backups := [], db_sync_log := [(6000, Error)],
        last_sync_time := Some 6000, sync_state_file := Some 6000\<rparr>"
    by (simp add: sync_on_startup_def l get_remote_last_modified_def get_backup_files_def
        api_call_def sync_to_github_def is_configured_def get_contents_def find_file_def
        create_file_def sync_to_github_finish_def update_sync_log_def save_last_sync_time_def
        example_state_def)
  have b: "last_sync_time ((example_state True [None, None, Some GithubException])\<lparr>backups := []\<rparr>) =
     Some 50"
    by (simp add: example_state_def)
  have c: "manual_sync ((example_state True [None, None, Some GithubException])\<lparr>backups := []\<rparr>) ''both'' =
     (True, (example_state True [])\<lparr>backups := [], db_sync_log := [(6000, Error)],
        last_sync_time := Some 6000, sync_state_file := Some 6000, notified := 1\<rparr>)"
    by (simp add: manual_sync_def sync_on_startup_def l' get_remote_last_modified_def
        get_backup_files_def
        api_call_def sync_to_github_def is_configured_def get_contents_def find_file_def
        create_file_def sync_to_github_finish_def update_sync_log_def save_last_sync_time_def
        notify_sync_complete_def example_state_def)
  have d: "manual_sync ((example_state True [None, Some GithubException])\<lparr>backups := []\<rparr>) ''upload'' =
     (False, (example_state True [])\<lparr>backups := [], db_sync_log := [(6000, Error)]\<rparr>)"
    by (simp add: manual_sync_def
        api_call_def sync_to_github_def is_configured_def get_contents_def find_file_def
        create_file_def sync_to_github_finish_def update_sync_log_def example_state_def)
  have e: "sync_loop_tick ((example_state True [])\<lparr>backups := [], db_sync_log := [(6000, Error)],
        last_sync_time := Some 6000, sync_state_file := Some 6000\<rparr>) =
     (example_state True [])\<lparr>backups := [], db_sync_log := [(6000, Error)],
        last_sync_time := Some 6000, sync_state_file := Some 6000\<rparr>"
    by (simp add: sync_loop_tick_def get_local_last_modified_def example_state_def
        example_row_def max_def)
  from a b c d e show ?thesis
    by (simp only: simp_thms)
qed

section \<open>The deletion-backup queue\<close>

text \<open>
  C7. \<^verbatim>\<open>backup_deleted_record\<close> on a configured remote appends the job to the queue and
  returns True; on an unconfigured remote it returns False and changes nothing. In both
  cases it makes no remote write (\<open>deleted_records\<close> is as before) and does not touch
  the worker. The queue is unbounded, so the \<^verbatim>\<open>put\<close> does not wait.
\<close>

theorem backup_deleted_record_enqueues_when_configured:
  "backup_deleted_record a r =
     (if is_configured (app_github_sync a)
      then (True, a\<lparr>backup_queue := backup_queue a @ [r]\<rparr>)
      else (False, a)) \<and>
   deleted_records (snd (backup_deleted_record a r)) = deleted_records a \<and>
   backup_thread (snd (backup_deleted_record a r)) = backup_thread a"
  by (simp add: backup_deleted_record_def)

lemma step_app_github_sync: "app_github_sync (step a e) = app_github_sync a"
  by (cases e) (auto simp: backup_deleted_record_def split: worker.splits list.splits)

lemma step_jobs:
  "map fst (deleted_records (step a e)) @ in_flight (step a e) @ backup_queue (step a e) =
   map fst (deleted_records a) @ in_flight a @ backup_queue a @ enqueued a [e]"
  by (cases e) (auto simp: in_flight_def enqueued_def backup_deleted_record_def
      split: worker.splits list.splits)

lemma enqueued_Cons: "enqueued a (e # evs) = enqueued a [e] @ enqueued (step a e) evs"
  by (simp add: enqueued_def step_app_github_sync)

lemma process_backup_queue_jobs:
  "map fst (deleted_records (process_backup_queue a evs)) @ in_flight (process_backup_queue a evs) @
     backup_queue (process_backup_queue a evs) =
   map fst (deleted_records a) @ in_flight a @ backup_queue a @ enqueued a evs"
proof (induction evs arbitrary: a)
  case Nil
  then show ?case by (simp add: process_backup_queue_def enqueued_def)
next
  case (Cons e evs)
  have "process_backup_queue a (e # evs) = process_backup_queue (step a e) evs"
    by (simp add: process_backup_queue_def)
  then show ?case
    using Cons[of "step a e"] step_jobs[of a e] enqueued_Cons[of a e evs]
    by simp
qed

text \<open>
  C6. Start with an empty queue, an idle worker and no backup written, and let the
  threads interleave in any way. At every moment the jobs written, the job being
  written and the jobs waiting are, in this order, the jobs accepted so far in the order
  of their \<^verbatim>\<open>backup_deleted_record\<close> calls. So the k-th remote write is for the k-th
  accepted job: a job enqueued earlier is written earlier. The one worker has at most
  one write in flight.
\<close>

theorem backup_queue_writes_in_enqueue_order:
  assumes "backup_queue a = []" and "backup_thread a = AtGet" and "deleted_records a = []"
  shows "map fst (deleted_records (process_backup_queue a evs)) @
           in_flight (process_backup_queue a evs) @
           backup_queue (process_backup_queue a evs) = enqueued a evs \<and>
         map fst (deleted_records (process_backup_queue a evs)) =
           take (length (deleted_records (process_backup_queue a evs))) (enqueued a evs) \<and>
         length (in_flight (process_backup_queue a evs)) \<le> 1"
proof -
  let ?a = "process_backup_queue a evs"
  have j: "map fst (deleted_records ?a) @ in_flight ?a @ backup_queue ?a = enqueued a evs"
    using process_backup_queue_jobs[of a evs] assms by (simp add: in_flight_def)
  have "take (length (map fst (deleted_records ?a)))
          (map fst (deleted_records ?a) @ in_flight ?a @ backup_queue ?a) =
        map fst (deleted_records ?a)"
    by (rule append_eq_conv_conj[THEN iffD1, THEN conjunct1, symmetric]) (rule refl)
  then have t: "map fst (deleted_records ?a) = take (length (deleted_records ?a)) (enqueued a evs)"
    unfolding j by simp
  have "length (in_flight ?a) \<le> 1"
    by (simp add: in_flight_def split: worker.splits)
  with j t show ?thesis by blast
qed

text \<open>
  Two deletes, of records 1 and 2, enqueued in this order before the worker runs: the
  backup of record 1 is written first, although it is the write of record 2 that fails.
\<close>

theorem backup_queue_writes_in_enqueue_order_witness:
  "backup_queue example_app = [] \<and> backup_thread example_app = AtGet \<and>
   deleted_records example_app = [] \<and>
   enqueued example_app
     [Delete (export_row (example_row 1 100)), Delete (export_row (example_row 2 200)),
      Get, Done True, Get, Done False] =
     [export_row (example_row 1 100), export_row (example_row 2 200)] \<and>
   deleted_records (process_backup_queue example_app
     [Delete (export_row (example_row 1 100)), Delete (export_row (example_row 2 200)),
      Get, Done True, Get, Done False]) =
     [(export_row (example_row 1 100), True), (export_row (example_row 2 200), False)] \<and>
   map fst (deleted_records (process_backup_queue example_app
     [Delete (export_row (example_row 1 100)), Delete (export_row (example_row 2 200)),
      Get, Done True, Get, Done False])) =
     take 2 [export_row (example_row 1 100), export_row (example_row 2 200)]"
proof -
  let ?evs = "[Delete (export_row (example_row 1 100)), Delete (export_row (example_row 2 200)),
      Get, Done True, Get, Done False]"
  have i: "backup_queue example_app = []" "backup_thread example_app = AtGet"
    "deleted_records example_app = []"
    by (simp_all add: example_app_def)
  have q: "enqueued example_app ?evs = [export_row (example_row 1 100), export_row (example_row 2 200)]"
    by (simp add: enqueued_def example_app_def is_configured_def)
  have w: "deleted_records (process_backup_queue example_app ?evs) =
     [(export_row (example_row 1 100), True), (export_row (example_row 2 200), False)]"
    by (simp add: process_backup_queue_def backup_deleted_record_def example_app_def
        is_configured_def)
  from backup_queue_writes_in_enqueue_order[OF i, of ?evs]
  have "map fst (deleted_records (process_backup_queue example_app ?evs)) =
     take (length (deleted_records (process_backup_queue example_app ?evs))) (enqueued example_app ?evs)"
    by blast
  then have "map fst (deleted_records (process_backup_queue example_app ?evs)) =
     take 2 [export_row (example_row 1 100), export_row (example_row 2 200)]"
    unfolding q by (simp add: w)
  with i q w show ?thesis
    by (simp only: simp_thms)
qed

end
